theory Spec2Isabelle
  imports Complex_Main "HOL-Library.Char_ord" "HOL-Library.List_Lexorder"
    "HOL-Library.Product_Lexorder" "HOL-Library.AList"
begin

section \<open>Strings and category normalisation\<close>

text \<open>
  The handlers of \<^verbatim>\<open>app.py\<close> canonicalise every category name with the inline
  expression \<^verbatim>\<open>.strip().title()\<close>. Strings are modelled as \<^typ>\<open>string\<close> and read as
  ASCII text: the whitespace set and the case rules below are the ones Python applies to
  code points below 128. A character from 128 on is outside the model, which treats it as
  an uncased symbol that is not whitespace, where Python cases accented letters and strips
  U+0085 and U+00A0. Strings are ordered as Python orders them, lexicographically by
  code point.
\<close>

definition isspace :: "char \<Rightarrow> bool" where
  "isspace c = (let n = (of_char c :: nat) in (9 \<le> n \<and> n \<le> 13) \<or> (28 \<le> n \<and> n \<le> 32))"

definition islower :: "char \<Rightarrow> bool" where
  "islower c = (let n = (of_char c :: nat) in 97 \<le> n \<and> n \<le> 122)"

definition isupper :: "char \<Rightarrow> bool" where
  "isupper c = (let n = (of_char c :: nat) in 65 \<le> n \<and> n \<le> 90)"

definition upper :: "char \<Rightarrow> char" where
  "upper c = (if islower c then char_of ((of_char c :: nat) - 32) else c)"

definition lower :: "char \<Rightarrow> char" where
  "lower c = (if isupper c then char_of ((of_char c :: nat) + 32) else c)"

definition strip :: "string \<Rightarrow> string" where
  "strip s = rev (dropWhile isspace (rev (dropWhile isspace s)))"

text \<open>
  \<^verbatim>\<open>str.title\<close>: a cased character is upper-cased when the character before it is not
  cased, and lower-cased otherwise; the flag is \<^verbatim>\<open>previous_is_cased\<close>.
\<close>

fun title_from :: "bool \<Rightarrow> string \<Rightarrow> string" where
  "title_from previous_is_cased [] = []"
| "title_from previous_is_cased (c # cs) =
     (if islower c then (if previous_is_cased then c else upper c) # title_from True cs
      else if isupper c then (if previous_is_cased then lower c else c) # title_from True cs
      else c # title_from False cs)"

definition title :: "string \<Rightarrow> string" where
  "title s = title_from False s"

definition normalize_name :: "string \<Rightarrow> string" where
  "normalize_name raw = title (strip raw)"

section \<open>The document store\<close>

text \<open>
  A \<^verbatim>\<open>datetime\<close> has its seven fields. Firestore keeps a timestamp as an instant and
  hands it back in UTC, so the date of a stored document is modelled by its UTC fields,
  and two instants compare as the tuples of their UTC fields do.
\<close>

record datetime =
  year :: nat
  month :: nat
  day :: nat
  hour :: nat
  minute :: nat
  second :: nat
  microsecond :: nat

definition datetime_le :: "datetime \<Rightarrow> datetime \<Rightarrow> bool" where
  "datetime_le a b =
     ((year a, month a, day a, hour a, minute a, second a, microsecond a)
        \<le> (year b, month b, day b, hour b, minute b, second b, microsecond b))"

text \<open>
  \<^verbatim>\<open>add_transaction\<close> stores \<^verbatim>\<open>datetime.strptime(data["date"], "%Y-%m-%d")\<close>: a naive
  datetime at midnight, which Firestore takes as UTC.
\<close>

definition strptime_date :: "nat \<Rightarrow> nat \<Rightarrow> nat \<Rightarrow> datetime" where
  "strptime_date y m d =
     \<lparr>year = y, month = m, day = d, hour = 0, minute = 0, second = 0, microsecond = 0\<rparr>"

text \<open>
  The module constant \<^verbatim>\<open>TZ\<close> comes from \<^verbatim>\<open>pytz\<close> and is a parameter of the model: the
  offset that the object carries when it is passed as \<^verbatim>\<open>tzinfo=\<close>, given as the time by
  which the zone lies west of UTC (less than a day).
\<close>

record tzinfo =
  west_hour :: nat
  west_minute :: nat
  west_second :: nat

text \<open>
  Documents carry the fields the handlers write. A field the handlers read with
  \<^verbatim>\<open>data.get\<close> may be absent and is an option.
\<close>

record category_doc =
  c_userId :: string
  c_name :: "string option"
  c_createdAt :: datetime

record transaction_doc =
  t_userId :: string
  t_type :: "string option"
  t_amount :: "real option"
  t_category :: "string option"
  t_description :: string
  t_date :: "datetime option"

record settings_doc =
  monthlyGoal :: "real option"

text \<open>
  A collection is the list of its documents in the order \<^verbatim>\<open>stream()\<close> yields them; a
  document reference is the position of the document in that list. The settings
  collection is read by document id only. An amount is a Python float, a real number;
  the addition of two floats and the built-in \<^verbatim>\<open>sum\<close> round their results and are
  parameters \<open>fadd\<close> and \<open>fsum\<close> of the functions that add amounts, so that nothing
  is assumed about the rounding.
\<close>

record firestore =
  categories :: "category_doc list"
  transactions :: "transaction_doc list"
  settings :: "string \<rightharpoonup> settings_doc"

text \<open>
  A call of the Firestore client may raise. The calls a handler makes are numbered from 0 in
  the order of the source text, and the argument \<open>fault\<close> of a handler names the call that
  raises, if any; \<open>None\<close> is a run in which the store answers every call.
\<close>

datatype exn = FirestoreError | AttributeError

definition DEFAULT_CATEGORIES :: "string list" where
  "DEFAULT_CATEGORIES = [''Transporte'', ''Comida'', ''Entretenimiento'', ''Servicios'', ''Renta'']"

section \<open>Listing categories\<close>

definition categories_where_user :: "firestore \<Rightarrow> string \<Rightarrow> category_doc list" where
  "categories_where_user st user_id = filter (\<lambda>d. c_userId d = user_id) (categories st)"

definition add_category_name :: "category_doc \<Rightarrow> string set \<Rightarrow> string set" where
  "add_category_name doc all_categories =
     (case c_name doc of
        None \<Rightarrow> all_categories
      | Some category_name \<Rightarrow>
          if category_name \<noteq> [] then insert category_name all_categories else all_categories)"

definition otros_last :: "string list \<Rightarrow> string list" where
  "otros_last result =
     (if ''Otros'' \<notin> set result then result @ [''Otros'']
      else remove1 ''Otros'' result @ [''Otros''])"

definition get_user_categories :: "firestore option \<Rightarrow> nat option \<Rightarrow> string \<Rightarrow> exn + string list" where
  "get_user_categories db fault user_id =
     (case db of
        None \<Rightarrow> Inr DEFAULT_CATEGORIES
      | Some st \<Rightarrow>
          if fault = Some 0 then Inl FirestoreError
          else
            let all_categories = fold add_category_name (categories_where_user st user_id)
                                   (set DEFAULT_CATEGORIES);
                result = sorted_list_of_set all_categories
            in Inr (otros_last result))"

section \<open>HTTP responses\<close>

text \<open>
  A handler returns the pair Flask receives: a JSON body and a status code. The texts
  of the messages are not modelled; a body keeps the values a message interpolates.
  In the words of the specification, 400 is ValidationError, 403 ForbiddenError,
  404 NotFoundError, 409 ConflictError and 500 the internal error.
\<close>

record trend_entry =
  category_name :: string
  total_amount :: real
  monthly_trend :: "real list"
  type_field :: string

datatype body =
    Error_body
  | Categories_body "string list"
  | Created_body string
  | Updated_body string string nat
  | Deleted_body string nat
  | Monthly_body "trend_entry list"

type_synonym response = "body \<times> nat"

text \<open>A handler also returns the store as it leaves it (the global \<^verbatim>\<open>db\<close>).\<close>

definition get_categories :: "firestore option \<Rightarrow> nat option \<Rightarrow> string \<Rightarrow> response" where
  "get_categories db fault user_id =
     (case get_user_categories db fault user_id of
        Inl e \<Rightarrow> (Error_body, 500)
      | Inr cs \<Rightarrow> (Categories_body cs, 200))"

section \<open>Creating a category\<close>

definition get_default :: "'a option \<Rightarrow> 'a \<Rightarrow> 'a" where
  "get_default field dflt = (case field of None \<Rightarrow> dflt | Some v \<Rightarrow> v)"

definition create_category ::
  "firestore option \<Rightarrow> nat option \<Rightarrow> string \<Rightarrow> datetime \<Rightarrow> string option
     \<Rightarrow> response \<times> firestore option" where
  "create_category db fault user_id now name_field =
     (case db of
        None \<Rightarrow> ((Error_body, 500), db)
      | Some st \<Rightarrow>
          let new_category_name = normalize_name (get_default name_field []) in
          if new_category_name = [] then ((Error_body, 400), db)
          else
            (case get_user_categories db fault user_id of
               Inl e \<Rightarrow> ((Error_body, 500), db)
             | Inr existing_categories \<Rightarrow>
                 if new_category_name \<in> set existing_categories then ((Error_body, 409), db)
                 else if fault = Some 1 then ((Error_body, 500), db)
                 else
                   let category_doc = \<lparr>c_userId = user_id, c_name = Some new_category_name,
                                        c_createdAt = now\<rparr>
                   in ((Created_body new_category_name, 201),
                       Some (st\<lparr>categories := categories st @ [category_doc]\<rparr>))))"

section \<open>Queries and batched writes\<close>

definition categories_where_user_name ::
  "firestore \<Rightarrow> string \<Rightarrow> string \<Rightarrow> (nat \<times> category_doc) list" where
  "categories_where_user_name st user_id name =
     take 1 (filter (\<lambda>(ref, d). c_userId d = user_id \<and> c_name d = Some name)
               (enumerate 0 (categories st)))"

definition transactions_where_user_category ::
  "firestore \<Rightarrow> string \<Rightarrow> string \<Rightarrow> (nat \<times> transaction_doc) list" where
  "transactions_where_user_category st user_id category =
     filter (\<lambda>(ref, t). t_userId t = user_id \<and> t_category t = Some category)
       (enumerate 0 (transactions st))"

text \<open>
  A write batch is the list of the updates queued with \<^verbatim>\<open>batch.update\<close>: the reference
  and the new value of the field \<^verbatim>\<open>category\<close>. \<^verbatim>\<open>batch.commit\<close> applies them in order.
\<close>

type_synonym batch = "(nat \<times> string) list"

definition batch_update :: "batch \<Rightarrow> nat \<Rightarrow> string \<Rightarrow> batch" where
  "batch_update b ref category = b @ [(ref, category)]"

definition queue_updates :: "string \<Rightarrow> (nat \<times> transaction_doc) list \<Rightarrow> batch \<times> nat" where
  "queue_updates category docs =
     fold (\<lambda>(ref, t) (b, count). (batch_update b ref category, count + 1)) docs ([], 0)"

definition batch_commit :: "batch \<Rightarrow> transaction_doc list \<Rightarrow> transaction_doc list" where
  "batch_commit b txs =
     fold (\<lambda>(ref, category) acc. acc[ref := (acc ! ref)\<lparr>t_category := Some category\<rparr>]) b txs"

definition delete_at :: "nat \<Rightarrow> 'a list \<Rightarrow> 'a list" where
  "delete_at ref xs = take ref xs @ drop (Suc ref) xs"

section \<open>Renaming a category\<close>

text \<open>
  Client calls of \<^verbatim>\<open>update_category\<close>: 0 the category query, 1 the update of the
  category document, 2 the transaction query, 3 the commit of the batch. The category
  query has \<^verbatim>\<open>limit(1)\<close> and the loop over it breaks after its first document.
\<close>

definition update_category ::
  "firestore option \<Rightarrow> nat option \<Rightarrow> string \<Rightarrow> string option \<Rightarrow> string option
     \<Rightarrow> response \<times> firestore option" where
  "update_category db fault user_id old_name_arg new_name_field =
     (case db of
        None \<Rightarrow> ((Error_body, 500), db)
      | Some st \<Rightarrow>
          let old_name = normalize_name (get_default old_name_arg []);
              new_name = normalize_name (get_default new_name_field [])
          in
          if old_name = [] \<or> new_name = [] then ((Error_body, 400), db)
          else if fault = Some 0 then ((Error_body, 500), db)
          else
            let category_ref = categories_where_user_name st user_id old_name;
                found = (category_ref \<noteq> [])
            in
            if found \<and> fault = Some 1 then ((Error_body, 500), db)
            else
              let st1 = (case category_ref of
                           [] \<Rightarrow> st
                         | (ref, doc) # rest \<Rightarrow>
                             st\<lparr>categories := (categories st)[ref := doc\<lparr>c_name := Some new_name\<rparr>]\<rparr>)
              in
              if \<not> found \<and> old_name \<notin> set DEFAULT_CATEGORIES then ((Error_body, 404), Some st1)
              else if fault = Some 2 then ((Error_body, 500), Some st1)
              else
                let transactions_to_update = transactions_where_user_category st1 user_id old_name;
                    (b, count) = queue_updates new_name transactions_to_update
                in
                if fault = Some 3 then ((Error_body, 500), Some st1)
                else ((Updated_body old_name new_name count, 200),
                      Some (st1\<lparr>transactions := batch_commit b (transactions st1)\<rparr>)))"

section \<open>Deleting a category\<close>

text \<open>
  Client calls of \<^verbatim>\<open>delete_category\<close>: 0 the category query, 1 the deletion of the
  category document, 2 the transaction query, 3 the commit of the batch. The category
  query has \<^verbatim>\<open>limit(1)\<close>, so the deleting loop runs its body at most once. The status
  message of the success response interpolates the name and \<^verbatim>\<open>count\<close>, the number of
  reassigned transactions; \<^verbatim>\<open>deleted_count\<close> is only compared with 0.
\<close>

definition delete_category ::
  "firestore option \<Rightarrow> nat option \<Rightarrow> string \<Rightarrow> string option \<Rightarrow> response \<times> firestore option" where
  "delete_category db fault user_id name_arg =
     (case db of
        None \<Rightarrow> ((Error_body, 500), db)
      | Some st \<Rightarrow>
          let category_to_delete = normalize_name (get_default name_arg []) in
          if category_to_delete = [] then ((Error_body, 400), db)
          else if category_to_delete \<in> set DEFAULT_CATEGORIES then ((Error_body, 403), db)
          else if fault = Some 0 then ((Error_body, 500), db)
          else
            let category_ref = categories_where_user_name st user_id category_to_delete in
            if category_ref \<noteq> [] \<and> fault = Some 1 then ((Error_body, 500), db)
            else
              let (st1, deleted_count) =
                    (case category_ref of
                       [] \<Rightarrow> (st, 0 :: nat)
                     | (ref, doc) # rest \<Rightarrow>
                         (st\<lparr>categories := delete_at ref (categories st)\<rparr>, 1))
              in
              if deleted_count = 0 then ((Error_body, 404), Some st1)
              else if fault = Some 2 then ((Error_body, 500), Some st1)
              else
                let transactions_to_update =
                      transactions_where_user_category st1 user_id category_to_delete;
                    (b, count) = queue_updates ''Otros'' transactions_to_update
                in
                if fault = Some 3 then ((Error_body, 500), Some st1)
                else ((Deleted_body category_to_delete count, 200),
                      Some (st1\<lparr>transactions := batch_commit b (transactions st1)\<rparr>)))"

section \<open>Dictionaries\<close>

text \<open>
  A Python dictionary keeps its keys in insertion order: it is an association list, and
  \<^const>\<open>AList.update\<close> is the assignment \<^verbatim>\<open>d[k] = v\<close> (in place for a key that is
  present, at the end for a new one). \<^verbatim>\<open>d[k] += v\<close> on a \<^verbatim>\<open>defaultdict(float)\<close> reads
  0.0 for a missing key.
\<close>

type_synonym ('k, 'v) dict = "('k \<times> 'v) list"

definition dict_get :: "('k, 'v) dict \<Rightarrow> 'k \<Rightarrow> 'v \<Rightarrow> 'v" where
  "dict_get d k dflt = (case map_of d k of None \<Rightarrow> dflt | Some v \<Rightarrow> v)"

definition dict_add ::
  "(real \<Rightarrow> real \<Rightarrow> real) \<Rightarrow> 'k \<Rightarrow> real \<Rightarrow> ('k, real) dict \<Rightarrow> ('k, real) dict" where
  "dict_add fadd k amount d = AList.update k (fadd (dict_get d k 0) amount) d"

text \<open>
  \<^verbatim>\<open>max(d, key=d.get)\<close> walks the keys in order and keeps the first one whose value is
  the largest.
\<close>

fun max_from :: "('k \<Rightarrow> real) \<Rightarrow> 'k \<Rightarrow> 'k list \<Rightarrow> 'k" where
  "max_from key best [] = best"
| "max_from key best (k # ks) = max_from key (if key k > key best then k else best) ks"

section \<open>The most problematic category\<close>

record problem_report =
  pc_category :: "string option"
  pc_current_spend :: real
  pc_goal_amount :: real
  pc_exceeds_goal :: bool

text \<open>
  \<^verbatim>\<open>datetime(now.year, now.month, 1, 0, 0, 0, tzinfo=TZ)\<close>, read in UTC: midnight in a
  zone west of UTC is the offset past midnight in UTC, on the same day.
\<close>

definition start_of_month :: "tzinfo \<Rightarrow> datetime \<Rightarrow> datetime" where
  "start_of_month TZ now =
     \<lparr>year = year now, month = month now, day = 1, hour = west_hour TZ,
      minute = west_minute TZ, second = west_second TZ, microsecond = 0\<rparr>"

text \<open>
  The query on \<^verbatim>\<open>userId\<close>, \<^verbatim>\<open>type\<close> and \<^verbatim>\<open>date >= start_of_month\<close>: a range filter
  leaves out a document without the field.
\<close>

definition expenses_since :: "firestore \<Rightarrow> string \<Rightarrow> datetime \<Rightarrow> transaction_doc list" where
  "expenses_since st user_id start =
     filter (\<lambda>t. t_userId t = user_id \<and> t_type t = Some ''expense''
                \<and> (case t_date t of None \<Rightarrow> False | Some d \<Rightarrow> datetime_le start d))
       (transactions st)"

definition category_totals_of ::
  "(real \<Rightarrow> real \<Rightarrow> real) \<Rightarrow> transaction_doc list \<Rightarrow> (string, real) dict" where
  "category_totals_of fadd docs =
     fold (\<lambda>data category_totals.
             let category = normalize_name (get_default (t_category data) ''Otros'');
                 amount = get_default (t_amount data) 0
             in dict_add fadd category amount category_totals) docs []"

text \<open>
  Client calls of \<^verbatim>\<open>get_most_problematic_category\<close>: 0 the read of the settings
  document, 1 the transaction query. Any exception inside the \<^verbatim>\<open>try\<close> block gives the
  record with the category \<^verbatim>\<open>"Error"\<close>. The argument \<open>now\<close> is \<^verbatim>\<open>datetime.now(TZ)\<close>.
\<close>

definition get_most_problematic_category ::
  "(real \<Rightarrow> real \<Rightarrow> real) \<Rightarrow> tzinfo \<Rightarrow> firestore option \<Rightarrow> nat option \<Rightarrow> string \<Rightarrow> datetime
     \<Rightarrow> problem_report" where
  "get_most_problematic_category fadd TZ db fault user_id now =
     (case db of
        None \<Rightarrow> \<lparr>pc_category = None, pc_current_spend = 0, pc_goal_amount = 0,
                 pc_exceeds_goal = False\<rparr>
      | Some st \<Rightarrow>
          if fault = Some 0 \<or> fault = Some 1
          then \<lparr>pc_category = Some ''Error'', pc_current_spend = 0, pc_goal_amount = 0,
                pc_exceeds_goal = False\<rparr>
          else
            let goal_amount = (case settings st user_id of
                                 None \<Rightarrow> 500
                               | Some goal_ref \<Rightarrow> get_default (monthlyGoal goal_ref) 500);
                transactions_ref = expenses_since st user_id (start_of_month TZ now);
                category_totals = category_totals_of fadd transactions_ref;
                (most_problematic_category, max_spend) =
                   (case map fst category_totals of
                      [] \<Rightarrow> (''Otros'', 0)
                    | k # ks \<Rightarrow>
                        let m = max_from (\<lambda>c. dict_get category_totals c 0) k ks
                        in (m, dict_get category_totals m 0));
                exceeds_goal = (max_spend > goal_amount)
            in \<lparr>pc_category = Some most_problematic_category, pc_current_spend = max_spend,
                pc_goal_amount = goal_amount, pc_exceeds_goal = exceeds_goal\<rparr>)"

section \<open>The monthly report\<close>

text \<open>
  \<^verbatim>\<open>strftime("%Y-%m")\<close>: the year in decimal, as many digits as it has (the C library
  does not pad it), a hyphen, and the month in two digits.
\<close>

definition digit :: "nat \<Rightarrow> char" where
  "digit n = char_of (48 + n mod 10)"

fun decimal :: "nat \<Rightarrow> string" where
  "decimal n = (if n < 10 then [digit n] else decimal (n div 10) @ [digit (n mod 10)])"

declare decimal.simps [simp del]

definition strftime_Y_m :: "datetime \<Rightarrow> string" where
  "strftime_Y_m d = decimal (year d) @ ''-'' @ [digit (month d div 10), digit (month d)]"

definition transactions_where_user :: "firestore \<Rightarrow> string \<Rightarrow> transaction_doc list" where
  "transactions_where_user st user_id = filter (\<lambda>t. t_userId t = user_id) (transactions st)"

text \<open>The statement \<^verbatim>\<open>monthly_data[category][month_key] += amount\<close> on the nested
  \<^verbatim>\<open>defaultdict\<close>.\<close>

definition add_to_month ::
  "(real \<Rightarrow> real \<Rightarrow> real) \<Rightarrow> string \<Rightarrow> string \<Rightarrow> real \<Rightarrow> (string, (string, real) dict) dict
     \<Rightarrow> (string, (string, real) dict) dict" where
  "add_to_month fadd category month_key amount monthly_data =
     AList.update category (dict_add fadd month_key amount (dict_get monthly_data category []))
       monthly_data"

text \<open>
  The loop over the transactions fills \<^verbatim>\<open>monthly_data\<close> and \<^verbatim>\<open>types_dict\<close>. A document
  without a date makes \<^verbatim>\<open>date_obj.to_pydatetime()\<close> raise. The test \<^verbatim>\<open>if not data\<close>
  never holds for a document the query returns, which has the field \<^verbatim>\<open>userId\<close>.
\<close>

fun monthly_loop ::
  "(real \<Rightarrow> real \<Rightarrow> real) \<Rightarrow> transaction_doc list \<Rightarrow> (string, (string, real) dict) dict
     \<Rightarrow> (string, string) dict
     \<Rightarrow> exn + ((string, (string, real) dict) dict \<times> (string, string) dict)" where
  "monthly_loop fadd [] monthly_data types_dict = Inr (monthly_data, types_dict)"
| "monthly_loop fadd (data # rest) monthly_data types_dict =
     (if t_type data \<noteq> Some ''expense'' \<and> t_type data \<noteq> Some ''income''
      then monthly_loop fadd rest monthly_data types_dict
      else
        let category = normalize_name (get_default (t_category data) ''Otros'');
            amount = get_default (t_amount data) 0
        in
        case t_date data of
          None \<Rightarrow> Inl AttributeError
        | Some date_obj \<Rightarrow>
            let month_key = strftime_Y_m date_obj;
                monthly_data' = add_to_month fadd category month_key amount monthly_data;
                types_dict' = AList.update category (get_default (t_type data) []) types_dict
            in monthly_loop fadd rest monthly_data' types_dict')"

definition trend_of :: "(string, real) dict \<Rightarrow> real list" where
  "trend_of months =
     (let sorted_months = sort (map fst months);
          trend = map (\<lambda>m. dict_get months m 0) sorted_months
      in if length trend = 1 then [0, trend ! 0] else trend)"

definition entry_of ::
  "(real list \<Rightarrow> real) \<Rightarrow> (string, string) dict \<Rightarrow> string \<times> (string, real) dict \<Rightarrow> trend_entry" where
  "entry_of fsum types_dict item =
     (let category = fst item;
          trend = trend_of (snd item)
      in \<lparr>category_name = category, total_amount = fsum trend, monthly_trend = trend,
          type_field = dict_get types_dict category ''expense''\<rparr>)"

text \<open>Client call of \<^verbatim>\<open>monthly_report\<close>: 0 the transaction query.\<close>

definition monthly_report ::
  "(real \<Rightarrow> real \<Rightarrow> real) \<Rightarrow> (real list \<Rightarrow> real) \<Rightarrow> firestore option \<Rightarrow> nat option
     \<Rightarrow> string option \<Rightarrow> response" where
  "monthly_report fadd fsum db fault user_id_arg =
     (case db of
        None \<Rightarrow> (Error_body, 500)
      | Some st \<Rightarrow>
          (case user_id_arg of
             None \<Rightarrow> (Error_body, 400)
           | Some user_id \<Rightarrow>
               if user_id = [] then (Error_body, 400)
               else if fault = Some 0 then (Error_body, 500)
               else
                 (case monthly_loop fadd (transactions_where_user st user_id) [] [] of
                    Inl e \<Rightarrow> (Error_body, 500)
                  | Inr (monthly_data, types_dict) \<Rightarrow>
                      (Monthly_body (map (entry_of fsum types_dict) monthly_data), 200))))"

section \<open>Vocabulary of the statements\<close>

text \<open>
  The specification speaks of the transactions \<^emph>\<open>with (userId, category == name)\<close>, of
  \<^emph>\<open>reassigning every\<close> such transaction, and of the custom-category record \<^emph>\<open>matching
  (userId, name)\<close>. These definitions follow those words; the theorems compare them with
  what the handlers compute.
\<close>

definition in_category :: "string \<Rightarrow> string \<Rightarrow> transaction_doc \<Rightarrow> bool" where
  "in_category user_id name t = (t_userId t = user_id \<and> t_category t = Some name)"

definition reassign_all :: "string \<Rightarrow> string \<Rightarrow> string \<Rightarrow> transaction_doc list \<Rightarrow> transaction_doc list" where
  "reassign_all user_id old_name new_name txs =
     map (\<lambda>t. if in_category user_id old_name t then t\<lparr>t_category := Some new_name\<rparr> else t) txs"

definition names_category :: "string \<Rightarrow> string \<Rightarrow> category_doc \<Rightarrow> bool" where
  "names_category user_id name d = (c_userId d = user_id \<and> c_name d = Some name)"

text \<open>The numbers a response body carries: the counts its status message interpolates.\<close>

fun counts_in :: "body \<Rightarrow> nat list" where
  "counts_in (Updated_body old_name new_name count) = [count]"
| "counts_in (Deleted_body name count) = [count]"
| "counts_in other = []"

text \<open>
  For the reports, in the words of the specification: the normalised category of a
  transaction (\<^verbatim>\<open>"Otros"\<close> when it has none) and its amount (0 when it has none); the
  sum of a list of amounts, added up in the order of the list from 0.0; the calendar
  month of a transaction as the pair of its year and its month, ordered as time is.
\<close>

definition category_of :: "transaction_doc \<Rightarrow> string" where
  "category_of t = normalize_name (case t_category t of None \<Rightarrow> ''Otros'' | Some c \<Rightarrow> c)"

definition amount_of :: "transaction_doc \<Rightarrow> real" where
  "amount_of t = (case t_amount t of None \<Rightarrow> 0 | Some a \<Rightarrow> a)"

definition summed :: "(real \<Rightarrow> real \<Rightarrow> real) \<Rightarrow> real list \<Rightarrow> real" where
  "summed fadd amounts = foldl fadd 0 amounts"

definition month_of :: "transaction_doc \<Rightarrow> nat \<times> nat" where
  "month_of t = (case t_date t of None \<Rightarrow> (0, 0) | Some d \<Rightarrow> (year d, month d))"

text \<open>
  For the most problematic category: the expenses of the user dated in the current month,
  the monthly goal of the user (500 when none is stored), and the spend of a category.
\<close>

definition current_month_expenses :: "firestore \<Rightarrow> string \<Rightarrow> datetime \<Rightarrow> transaction_doc list" where
  "current_month_expenses st user_id now =
     filter (\<lambda>t. t_userId t = user_id \<and> t_type t = Some ''expense'' \<and> t_date t \<noteq> None
                \<and> month_of t = (year now, month now))
       (transactions st)"

definition monthly_goal :: "firestore \<Rightarrow> string \<Rightarrow> real" where
  "monthly_goal st user_id =
     (case settings st user_id of
        None \<Rightarrow> 500
      | Some s \<Rightarrow> (case monthlyGoal s of None \<Rightarrow> 500 | Some goal \<Rightarrow> goal))"

definition spend_in :: "(real \<Rightarrow> real \<Rightarrow> real) \<Rightarrow> transaction_doc list \<Rightarrow> string \<Rightarrow> real" where
  "spend_in fadd docs c = summed fadd (map amount_of (filter (\<lambda>t. category_of t = c) docs))"

text \<open>
  A date lies clear of the edges of the current month when it is before the month, or in
  the month at or after its first midnight in the zone. The other dates are those the
  date test of the query and the calendar month disagree on.
\<close>

definition clear_of_month_edges :: "tzinfo \<Rightarrow> datetime \<Rightarrow> datetime \<Rightarrow> bool" where
  "clear_of_month_edges TZ now d =
     ((year d, month d) < (year now, month now)
      \<or> ((year d, month d) = (year now, month now)
         \<and> (1, west_hour TZ, west_minute TZ, west_second TZ, 0)
             \<le> (day d, hour d, minute d, second d, microsecond d)))"

text \<open>
  For the monthly report: the transactions of the user that are expenses or incomes; the
  months in which a category has transactions, in ascending order; the amounts of a
  category in one month, summed; and the trend: the sums of the months in that order,
  with a zero in front when there is exactly one month.
\<close>

definition report_transactions :: "firestore \<Rightarrow> string \<Rightarrow> transaction_doc list" where
  "report_transactions st user_id =
     filter (\<lambda>t. t_userId t = user_id \<and> (t_type t = Some ''expense'' \<or> t_type t = Some ''income''))
       (transactions st)"

definition months_of :: "transaction_doc list \<Rightarrow> string \<Rightarrow> (nat \<times> nat) list" where
  "months_of docs c = sort (remdups (map month_of (filter (\<lambda>t. category_of t = c) docs)))"

definition month_sum ::
  "(real \<Rightarrow> real \<Rightarrow> real) \<Rightarrow> transaction_doc list \<Rightarrow> string \<Rightarrow> nat \<times> nat \<Rightarrow> real" where
  "month_sum fadd docs c m =
     summed fadd (map amount_of (filter (\<lambda>t. category_of t = c \<and> month_of t = m) docs))"

definition trend_by_month ::
  "(real \<Rightarrow> real \<Rightarrow> real) \<Rightarrow> transaction_doc list \<Rightarrow> string \<Rightarrow> real list" where
  "trend_by_month fadd docs c =
     (let per_month = map (month_sum fadd docs c) (months_of docs c)
      in if length per_month = 1 then 0 # per_month else per_month)"

text \<open>The dates for which \<^verbatim>\<open>%Y-%m\<close> has the form \<^verbatim>\<open>YYYY-MM\<close>.\<close>

definition four_digit_year :: "datetime \<Rightarrow> bool" where
  "four_digit_year d = (1000 \<le> year d \<and> year d \<le> 9999 \<and> 1 \<le> month d \<and> month d \<le> 12)"

section \<open>Invariant of the monthly loop\<close>

text \<open>
  What \<^verbatim>\<open>monthly_data\<close> holds after the loop has read the documents \<open>docs\<close>, in terms
  of what it held before: its categories, the value and the keys of each inner dictionary,
  and that no key occurs twice. The key of a document is the one the loop gives it.
\<close>

definition loop_category :: "transaction_doc \<Rightarrow> string" where
  "loop_category data = normalize_name (get_default (t_category data) ''Otros'')"

definition loop_amount :: "transaction_doc \<Rightarrow> real" where
  "loop_amount data = get_default (t_amount data) 0"

definition loop_key :: "transaction_doc \<Rightarrow> string" where
  "loop_key data = (case t_date data of None \<Rightarrow> [] | Some d \<Rightarrow> strftime_Y_m d)"

definition cell :: "(string, (string, real) dict) dict \<Rightarrow> string \<Rightarrow> string \<Rightarrow> real" where
  "cell monthly_data c k = dict_get (dict_get monthly_data c []) k 0"

definition month_keys :: "(string, (string, real) dict) dict \<Rightarrow> string \<Rightarrow> string set" where
  "month_keys monthly_data c = fst ` set (dict_get monthly_data c [])"

definition well_keyed :: "(string, (string, real) dict) dict \<Rightarrow> bool" where
  "well_keyed monthly_data =
     (distinct (map fst monthly_data) \<and> (\<forall>c. distinct (map fst (dict_get monthly_data c []))))"

definition filled_from ::
  "(real \<Rightarrow> real \<Rightarrow> real) \<Rightarrow> transaction_doc list \<Rightarrow> (string, (string, real) dict) dict
     \<Rightarrow> (string, (string, real) dict) dict \<Rightarrow> bool" where
  "filled_from fadd docs md md' =
     (fst ` set md' = fst ` set md \<union> loop_category ` set docs
      \<and> (\<forall>c k. cell md' c k =
             foldl fadd (cell md c k)
               (map loop_amount (filter (\<lambda>t. loop_category t = c \<and> loop_key t = k) docs)))
      \<and> (\<forall>c. month_keys md' c = month_keys md c \<union>
                 loop_key ` set (filter (\<lambda>t. loop_category t = c) docs))
      \<and> (well_keyed md \<longrightarrow> well_keyed md'))"

text \<open>
  The key of a month, as \<^verbatim>\<open>strftime\<close> writes it; the months whose key has the form
  \<^verbatim>\<open>YYYY-MM\<close>; and the documents the loop does not skip.
\<close>

definition month_key :: "nat \<times> nat \<Rightarrow> string" where
  "month_key m = decimal (fst m) @ ''-'' @ [digit (snd m div 10), digit (snd m)]"

definition four_digit :: "nat \<times> nat \<Rightarrow> bool" where
  "four_digit m = (1000 \<le> fst m \<and> fst m \<le> 9999 \<and> 1 \<le> snd m \<and> snd m \<le> 12)"

definition reported :: "transaction_doc \<Rightarrow> bool" where
  "reported t = (t_type t = Some ''expense'' \<or> t_type t = Some ''income'')"

section \<open>Auxiliary facts: the category listing\<close>

lemma finite_fold_add_category_name:
  "finite S \<Longrightarrow> finite (fold add_category_name docs S)"
  by (induction docs arbitrary: S) (auto simp: add_category_name_def split: option.splits)

lemma fold_add_category_name_set:
  "fold add_category_name docs S =
     S \<union> {n. n \<noteq> [] \<and> (\<exists>d \<in> set docs. c_name d = Some n)}"
  by (induction docs arbitrary: S) (auto simp: add_category_name_def split: option.splits)

lemma set_otros_last: "set (otros_last result) = insert ''Otros'' (set result)"
  by (auto simp: otros_last_def set_remove1_eq dest: notin_set_remove1 in_set_remove1)

lemma otros_last_shape:
  assumes "sorted result" and "distinct result"
  shows "last (otros_last result) = ''Otros''"
    and "distinct (otros_last result)"
    and "sorted (butlast (otros_last result))"
  using assms by (auto simp: otros_last_def sorted_remove1)

section \<open>Auxiliary facts: queries and batches\<close>

lemma queue_updates_fold:
  "fold (\<lambda>(ref, t) (b, count). (batch_update b ref c, count + 1)) docs (b0, n0) =
     (b0 @ map (\<lambda>(ref, t). (ref, c)) docs, n0 + length docs)"
  by (induction docs arbitrary: b0 n0) (auto simp: batch_update_def)

lemma queue_updates_eq:
  "queue_updates c docs = (map (\<lambda>(ref, t). (ref, c)) docs, length docs)"
  unfolding queue_updates_def using queue_updates_fold [of c docs "[]" 0] by simp

lemma batch_commit_length: "length (batch_commit b txs) = length txs"
  unfolding batch_commit_def by (induction b arbitrary: txs) auto

lemma batch_commit_nth:
  assumes "\<forall>w \<in> set b. snd w = c" and "j < length txs"
  shows "batch_commit b txs ! j =
           (if j \<in> fst ` set b then (txs ! j)\<lparr>t_category := Some c\<rparr> else txs ! j)"
  using assms unfolding batch_commit_def
proof (induction b arbitrary: txs)
  case Nil
  then show ?case by simp
next
  case (Cons w b)
  obtain r c' where w: "w = (r, c')" by (cases w)
  with Cons.prems have c': "c' = c" by simp
  let ?txs1 = "txs[r := (txs ! r)\<lparr>t_category := Some c\<rparr>]"
  have "\<forall>w \<in> set b. snd w = c" using Cons.prems by simp
  moreover have "j < length ?txs1" using Cons.prems by simp
  ultimately have ih: "fold (\<lambda>(ref, category) acc. acc[ref := (acc ! ref)\<lparr>t_category := Some category\<rparr>]) b ?txs1 ! j
      = (if j \<in> fst ` set b then (?txs1 ! j)\<lparr>t_category := Some c\<rparr> else ?txs1 ! j)"
    by (rule Cons.IH)
  show ?case
  proof (cases "j = r")
    case True
    then show ?thesis using ih w c' Cons.prems(2) by simp
  next
    case False
    then show ?thesis using ih w c' Cons.prems(2) by (auto simp: image_iff)
  qed
qed

lemma fst_set_filter_enumerate:
  "fst ` set (filter (\<lambda>(ref, d). P d) (enumerate 0 xs)) = {i. i < length xs \<and> P (xs ! i)}"
  by (auto simp: in_set_enumerate_eq image_iff)

lemma commit_queued_updates:
  "batch_commit (map (\<lambda>(ref, t). (ref, c)) (filter (\<lambda>(ref, t). P t) (enumerate 0 txs))) txs
     = map (\<lambda>t. if P t then t\<lparr>t_category := Some c\<rparr> else t) txs"
proof (rule nth_equalityI)
  show "length (batch_commit (map (\<lambda>(ref, t). (ref, c)) (filter (\<lambda>(ref, t). P t) (enumerate 0 txs))) txs)
        = length (map (\<lambda>t. if P t then t\<lparr>t_category := Some c\<rparr> else t) txs)"
    by (simp add: batch_commit_length)
next
  fix j
  assume "j < length (batch_commit (map (\<lambda>(ref, t). (ref, c)) (filter (\<lambda>(ref, t). P t) (enumerate 0 txs))) txs)"
  then have j: "j < length txs" by (simp add: batch_commit_length)
  let ?b = "map (\<lambda>(ref, t). (ref, c)) (filter (\<lambda>(ref, t). P t) (enumerate 0 txs))"
  have all: "\<forall>w \<in> set ?b. snd w = c" by auto
  have "fst ` set ?b = fst ` set (filter (\<lambda>(ref, t). P t) (enumerate 0 txs))"
    by (force simp: image_iff)
  also have "\<dots> = {i. i < length txs \<and> P (txs ! i)}"
    by (rule fst_set_filter_enumerate)
  finally have dom: "fst ` set ?b = {i. i < length txs \<and> P (txs ! i)}" .
  have "batch_commit ?b txs ! j =
          (if j \<in> fst ` set ?b then (txs ! j)\<lparr>t_category := Some c\<rparr> else txs ! j)"
    by (rule batch_commit_nth [OF all j])
  also have "\<dots> = (if P (txs ! j) then (txs ! j)\<lparr>t_category := Some c\<rparr> else txs ! j)"
    unfolding dom using j by simp
  also have "\<dots> = map (\<lambda>t. if P t then t\<lparr>t_category := Some c\<rparr> else t) txs ! j"
    using j by simp
  finally show "batch_commit ?b txs ! j = map (\<lambda>t. if P t then t\<lparr>t_category := Some c\<rparr> else t) txs ! j" .
qed

lemma length_filter_enumerate:
  "length (filter (\<lambda>(ref, d). P d) (enumerate n xs)) = length (filter P xs)"
  by (induction xs arbitrary: n) auto

lemma first_match_enumerate:
  "\<exists>d \<in> set xs. P d \<Longrightarrow>
   \<exists>i rest. filter (\<lambda>(ref, d). P d) (enumerate n xs) = (n + i, xs ! i) # rest
            \<and> i < length xs \<and> P (xs ! i) \<and> (\<forall>j < i. \<not> P (xs ! j))"
proof (induction xs arbitrary: n)
  case Nil
  then show ?case by simp
next
  case (Cons x xs)
  show ?case
  proof (cases "P x")
    case True
    then show ?thesis by (intro exI [of _ 0]) simp
  next
    case False
    with Cons.prems have "\<exists>d \<in> set xs. P d" by simp
    from Cons.IH [OF this, of "Suc n"] obtain i rest where
      i: "filter (\<lambda>(ref, d). P d) (enumerate (Suc n) xs) = (Suc n + i, xs ! i) # rest"
         "i < length xs" "P (xs ! i)" "\<forall>j < i. \<not> P (xs ! j)" by blast
    have "\<forall>j < Suc i. \<not> P ((x # xs) ! j)"
      using False i(4) by (auto simp: less_Suc_eq_0_disj)
    then show ?thesis using False i(1,2,3)
      by (intro exI [of _ "Suc i"] exI [of _ rest]) simp
  qed
qed

lemma no_match_enumerate:
  "\<not> (\<exists>d \<in> set xs. P d) \<Longrightarrow> filter (\<lambda>(ref, d). P d) (enumerate n xs) = []"
  by (auto simp: filter_empty_conv in_set_enumerate_eq)

section \<open>Auxiliary facts: the handlers\<close>

lemma transactions_where_user_category_eq:
  "transactions_where_user_category st user_id name =
     filter (\<lambda>(ref, t). in_category user_id name t) (enumerate 0 (transactions st))"
  by (simp add: transactions_where_user_category_def in_category_def)

lemma transactions_where_categories_update:
  "transactions_where_user_category (st\<lparr>categories := cs\<rparr>) user_id name
     = transactions_where_user_category st user_id name"
  by (simp add: transactions_where_user_category_def)

lemma reassign_step:
  "(case queue_updates new_name (transactions_where_user_category st user_id old_name) of
      (b, count) \<Rightarrow> f b count)
   = f (map (\<lambda>(ref, t). (ref, new_name)) (transactions_where_user_category st user_id old_name))
       (length (filter (in_category user_id old_name) (transactions st)))"
  by (simp add: queue_updates_eq transactions_where_user_category_eq length_filter_enumerate)

lemma commit_reassigns:
  "batch_commit (map (\<lambda>(ref, t). (ref, new_name)) (transactions_where_user_category st user_id old_name))
     (transactions st) = reassign_all user_id old_name new_name (transactions st)"
  by (simp add: transactions_where_user_category_eq commit_queued_updates reassign_all_def)

lemma categories_where_user_name_found:
  assumes "\<exists>d \<in> set (categories st). names_category user_id name d"
  shows "\<exists>i. categories_where_user_name st user_id name = [(i, categories st ! i)]
            \<and> i < length (categories st) \<and> names_category user_id name (categories st ! i)
            \<and> (\<forall>j < i. \<not> names_category user_id name (categories st ! j))"
proof -
  from first_match_enumerate [OF assms, of 0] obtain i rest where
    "filter (\<lambda>(ref, d). names_category user_id name d) (enumerate 0 (categories st))
       = (0 + i, categories st ! i) # rest"
    "i < length (categories st)" "names_category user_id name (categories st ! i)"
    "\<forall>j < i. \<not> names_category user_id name (categories st ! j)" by blast
  then show ?thesis
    by (intro exI [of _ i]) (simp add: categories_where_user_name_def names_category_def)
qed

lemma categories_where_user_name_none:
  assumes "\<not> (\<exists>d \<in> set (categories st). names_category user_id name d)"
  shows "categories_where_user_name st user_id name = []"
  using no_match_enumerate [OF assms, of 0]
  by (simp add: categories_where_user_name_def names_category_def)

lemma empty_not_listed:
  "get_user_categories (Some st) None user_id = Inr cs \<Longrightarrow> [] \<notin> set cs"
proof -
  assume a: "get_user_categories (Some st) None user_id = Inr cs"
  let ?all = "fold add_category_name (categories_where_user st user_id) (set DEFAULT_CATEGORIES)"
  have fin: "finite ?all" by (rule finite_fold_add_category_name) simp
  have cs: "cs = otros_last (sorted_list_of_set ?all)"
    using a by (simp add: get_user_categories_def Let_def)
  have "set cs = insert ''Otros'' ?all"
    unfolding cs using fin by (simp add: set_otros_last)
  then show ?thesis
    by (auto simp: fold_add_category_name_set DEFAULT_CATEGORIES_def)
qed

section \<open>Auxiliary facts: dictionaries and maxima\<close>

lemma dict_get_dict_add:
  "dict_get (dict_add fadd k a d) k' 0 = (if k' = k then fadd (dict_get d k 0) a else dict_get d k' 0)"
  by (simp add: dict_add_def dict_get_def update_conv')

lemma keys_dict_add: "fst ` set (dict_add fadd k a d) = insert k (fst ` set d)"
  by (simp add: dict_add_def dom_update)

lemma distinct_dict_add: "distinct (map fst d) \<Longrightarrow> distinct (map fst (dict_add fadd k a d))"
  by (simp add: dict_add_def distinct_update)

lemma dict_get_update:
  "dict_get (AList.update k v d) k' dflt = (if k' = k then v else dict_get d k' dflt)"
  by (simp add: dict_get_def update_conv')

lemma loop_category_eq: "loop_category = category_of"
  by (rule ext) (simp add: loop_category_def category_of_def get_default_def)

lemma loop_amount_eq: "loop_amount = amount_of"
  by (rule ext) (simp add: loop_amount_def amount_of_def get_default_def)

lemma fold_totals_get:
  "dict_get (fold (\<lambda>data totals. dict_add fadd (loop_category data) (loop_amount data) totals) docs d) c 0
     = foldl fadd (dict_get d c 0) (map loop_amount (filter (\<lambda>t. loop_category t = c) docs))"
  by (induction docs arbitrary: d) (simp_all add: dict_get_dict_add)

lemma fold_totals_keys:
  "fst ` set (fold (\<lambda>data totals. dict_add fadd (loop_category data) (loop_amount data) totals) docs d)
     = fst ` set d \<union> loop_category ` set docs"
  by (induction docs arbitrary: d) (auto simp: keys_dict_add)

lemma category_totals_of_fold:
  "category_totals_of fadd docs =
     fold (\<lambda>data totals. dict_add fadd (loop_category data) (loop_amount data) totals) docs []"
  by (simp add: category_totals_of_def loop_category_def loop_amount_def Let_def)

lemma category_totals_get: "dict_get (category_totals_of fadd docs) c 0 = spend_in fadd docs c"
proof -
  have "dict_get ([] :: (string, real) dict) c 0 = 0" by (simp add: dict_get_def)
  then show ?thesis
    unfolding category_totals_of_fold fold_totals_get
    by (simp add: spend_in_def summed_def loop_category_eq loop_amount_eq)
qed

lemma category_totals_keys: "set (map fst (category_totals_of fadd docs)) = category_of ` set docs"
  unfolding category_totals_of_fold set_map fold_totals_keys by (simp add: loop_category_eq)

lemma max_from_mem: "max_from key best ks \<in> insert best (set ks)"
  by (induction ks arbitrary: best) auto

lemma max_from_best: "key best \<le> key (max_from key best ks)"
proof (induction ks arbitrary: best)
  case Nil
  then show ?case by simp
next
  case (Cons k ks)
  have "key best \<le> key (if key k > key best then k else best)" by simp
  also have "\<dots> \<le> key (max_from key (if key k > key best then k else best) ks)"
    by (rule Cons.IH)
  finally show ?case by simp
qed

lemma max_from_greatest: "x \<in> set ks \<Longrightarrow> key x \<le> key (max_from key best ks)"
proof (induction ks arbitrary: best)
  case Nil
  then show ?case by simp
next
  case (Cons k ks)
  show ?case
  proof (cases "x = k")
    case True
    have "key k \<le> key (if key k > key best then k else best)" by simp
    also have "\<dots> \<le> key (max_from key (if key k > key best then k else best) ks)"
      by (rule max_from_best)
    finally show ?thesis using True by simp
  next
    case False
    with Cons.prems have "x \<in> set ks" by simp
    then show ?thesis using Cons.IH by simp
  qed
qed

lemma query_test_is_month:
  assumes "clear_of_month_edges TZ now d"
  shows "datetime_le (start_of_month TZ now) d = ((year d, month d) = (year now, month now))"
  using assms
  by (auto simp: clear_of_month_edges_def datetime_le_def start_of_month_def)

lemma expenses_since_current_month:
  assumes "\<forall>t \<in> set (transactions st). t_userId t = user_id \<and> t_type t = Some ''expense'' \<longrightarrow>
             (\<forall>d. t_date t = Some d \<longrightarrow> clear_of_month_edges TZ now d)"
  shows "expenses_since st user_id (start_of_month TZ now) = current_month_expenses st user_id now"
  unfolding expenses_since_def current_month_expenses_def
proof (rule filter_cong [OF refl])
  fix t assume t: "t \<in> set (transactions st)"
  show "(t_userId t = user_id \<and> t_type t = Some ''expense''
          \<and> (case t_date t of None \<Rightarrow> False | Some d \<Rightarrow> datetime_le (start_of_month TZ now) d))
        = (t_userId t = user_id \<and> t_type t = Some ''expense'' \<and> t_date t \<noteq> None
          \<and> month_of t = (year now, month now))"
  proof (cases "t_date t")
    case None
    then show ?thesis by simp
  next
    case (Some d)
    show ?thesis
    proof (cases "t_userId t = user_id \<and> t_type t = Some ''expense''")
      case True
      with assms t Some have "clear_of_month_edges TZ now d" by blast
      from query_test_is_month [OF this] show ?thesis using Some True by (simp add: month_of_def)
    next
      case False
      then show ?thesis by auto
    qed
  qed
qed

section \<open>Auxiliary facts: month keys\<close>

lemma of_char_digit: "(of_char (digit n) :: nat) = 48 + n mod 10"
proof -
  have "(48 + n mod 10) mod 256 = 48 + n mod 10"
    by (rule mod_less) (simp add: less_le_trans [OF add_strict_left_mono [OF mod_less_divisor]])
  then show ?thesis by (simp add: digit_def)
qed

lemma digit_less_iff: "(digit a < digit b) = (a mod 10 < b mod 10)"
  by (simp add: less_char_def of_char_digit)

lemma digit_eq_iff: "(digit a = digit b) = (a mod 10 = b mod 10)"
proof
  assume "digit a = digit b"
  then have "(of_char (digit a) :: nat) = of_char (digit b)" by simp
  then show "a mod 10 = b mod 10" by (simp add: of_char_digit)
next
  assume "a mod 10 = b mod 10"
  then show "digit a = digit b" by (simp add: digit_def)
qed

lemma decimal_small: "n < 10 \<Longrightarrow> decimal n = [digit n]"
  by (simp add: decimal.simps [of n])

lemma decimal_step: "\<not> n < 10 \<Longrightarrow> decimal n = decimal (n div 10) @ [digit (n mod 10)]"
  by (simp add: decimal.simps [of n])

lemma length_decimal_pos: "0 < length (decimal n)"
  by (cases "n < 10") (simp_all add: decimal_small decimal_step)

lemma length_decimal_one: "(length (decimal n) = Suc 0) = (n < 10)"
  using length_decimal_pos [of "n div 10"]
  by (cases "n < 10") (simp_all add: decimal_small decimal_step)

lemma less_append_same_length:
  "length xs = length ys \<Longrightarrow>
   ((xs @ us :: 'a :: linorder list) < ys @ vs) = (xs < ys \<or> (xs = ys \<and> us < vs))"
  by (induction xs ys rule: list_induct2) auto

lemma less_div_mod_10:
  "((a :: nat) < b) = (a div 10 < b div 10 \<or> (a div 10 = b div 10 \<and> a mod 10 < b mod 10))"
proof -
  define qa ra qb rb where "qa = a div 10" and "ra = a mod 10" and "qb = b div 10" and "rb = b mod 10"
  have a: "a = 10 * qa + ra" and b: "b = 10 * qb + rb" by (simp_all add: qa_def ra_def qb_def rb_def)
  have r: "ra < 10" "rb < 10" by (simp_all add: ra_def rb_def)
  have "(a < b) = (10 * qa + ra < 10 * qb + rb)" by (simp only: a [symmetric] b [symmetric])
  also have "\<dots> = (qa < qb \<or> (qa = qb \<and> ra < rb))"
    using r by arith
  finally show ?thesis unfolding qa_def ra_def qb_def rb_def .
qed

lemma eq_div_mod_10:
  "((a :: nat) = b) = (a div 10 = b div 10 \<and> a mod 10 = b mod 10)"
  by (metis div_mult_mod_eq)

lemma decimal_order:
  "length (decimal a) = length (decimal b) \<Longrightarrow>
   (decimal a < decimal b) = (a < b) \<and> (decimal a = decimal b) = (a = b)"
proof (induction a arbitrary: b rule: decimal.induct)
  case (1 a)
  show ?case
  proof (cases "a < 10")
    case True
    then have "length (decimal a) = Suc 0" by (simp add: length_decimal_one)
    with "1.prems" have "length (decimal b) = Suc 0" by simp
    then have b: "b < 10" by (simp add: length_decimal_one)
    show ?thesis using True b
      by (simp add: decimal_small digit_less_iff digit_eq_iff)
  next
    case False
    then have "length (decimal a) \<noteq> Suc 0" by (simp add: length_decimal_one)
    with "1.prems" have "length (decimal b) \<noteq> Suc 0" by simp
    then have b: "\<not> b < 10" by (simp add: length_decimal_one)
    have da: "decimal a = decimal (a div 10) @ [digit (a mod 10)]"
      using False by (rule decimal_step)
    have db: "decimal b = decimal (b div 10) @ [digit (b mod 10)]"
      using b by (rule decimal_step)
    have len: "length (decimal (a div 10)) = length (decimal (b div 10))"
      using "1.prems" by (simp add: da db)
    from "1.IH" [OF False len] have
      ih1: "(decimal (a div 10) < decimal (b div 10)) = (a div 10 < b div 10)" and
      ih2: "(decimal (a div 10) = decimal (b div 10)) = (a div 10 = b div 10)" by simp_all
    have less: "(decimal a < decimal b) = (a div 10 < b div 10 \<or> (a div 10 = b div 10 \<and> a mod 10 < b mod 10))"
      unfolding da db less_append_same_length [OF len] ih1 ih2
      by (simp add: digit_less_iff)
    have eq: "(decimal a = decimal b) = (a div 10 = b div 10 \<and> a mod 10 = b mod 10)"
      unfolding da db using ih2 by (simp add: digit_eq_iff)
    show ?thesis
      unfolding less eq less_div_mod_10 [of a b] eq_div_mod_10 [of a b] by simp
  qed
qed

lemma length_decimal_four: "1000 \<le> y \<Longrightarrow> y \<le> 9999 \<Longrightarrow> length (decimal y) = 4"
proof -
  assume y: "1000 \<le> y" "y \<le> 9999"
  have 1: "decimal y = decimal (y div 10) @ [digit (y mod 10)]"
    using y by (intro decimal_step) simp
  have 2: "decimal (y div 10) = decimal (y div 10 div 10) @ [digit (y div 10 mod 10)]"
    using y by (intro decimal_step) simp
  have 3: "decimal (y div 10 div 10) = decimal (y div 10 div 10 div 10) @ [digit (y div 10 div 10 mod 10)]"
    using y by (intro decimal_step) simp
  have "y div 10 div 10 div 10 < 10" using y by simp
  then have 4: "length (decimal (y div 10 div 10 div 10)) = Suc 0" by (simp add: length_decimal_one)
  show ?thesis unfolding 1 2 3 using 4 by simp
qed

lemma two_digits_order:
  assumes "m < 100" and "m' < 100"
  shows "([digit (m div 10), digit m] < [digit (m' div 10), digit m']) = (m < m')"
    and "([digit (m div 10), digit m] = [digit (m' div 10), digit m']) = (m = m')"
proof -
  have d: "m div 10 mod 10 = m div 10" "m' div 10 mod 10 = m' div 10" using assms by simp_all
  have "([digit (m div 10), digit m] < [digit (m' div 10), digit m']) =
        (m div 10 < m' div 10 \<or> (m div 10 = m' div 10 \<and> m mod 10 < m' mod 10))"
    by (simp add: digit_less_iff digit_eq_iff d)
  then show "([digit (m div 10), digit m] < [digit (m' div 10), digit m']) = (m < m')"
    unfolding less_div_mod_10 [of m m'] .
  have "([digit (m div 10), digit m] = [digit (m' div 10), digit m']) =
        (m div 10 = m' div 10 \<and> m mod 10 = m' mod 10)"
    by (simp add: digit_eq_iff d)
  then show "([digit (m div 10), digit m] = [digit (m' div 10), digit m']) = (m = m')"
    unfolding eq_div_mod_10 [of m m'] .
qed

lemma strftime_Y_m_order:
  assumes "four_digit_year d" and "four_digit_year d'"
  shows "(strftime_Y_m d < strftime_Y_m d') = ((year d, month d) < (year d', month d'))"
    and "(strftime_Y_m d = strftime_Y_m d') = ((year d, month d) = (year d', month d'))"
proof -
  define ms ms' where "ms = [digit (month d div 10), digit (month d)]"
    and "ms' = [digit (month d' div 10), digit (month d')]"
  have len: "length (decimal (year d)) = length (decimal (year d'))"
    using assms by (simp add: four_digit_year_def length_decimal_four)
  have o1: "(decimal (year d) < decimal (year d')) = (year d < year d')"
    and o2: "(decimal (year d) = decimal (year d')) = (year d = year d')"
    using decimal_order [OF len] by simp_all
  have m: "month d < 100" "month d' < 100" using assms by (simp_all add: four_digit_year_def)
  have t1: "(ms < ms') = (month d < month d')" and t2: "(ms = ms') = (month d = month d')"
    unfolding ms_def ms'_def by (rule two_digits_order [OF m])+
  have k: "strftime_Y_m d = decimal (year d) @ (CHR ''-'' # ms)"
    "strftime_Y_m d' = decimal (year d') @ (CHR ''-'' # ms')"
    by (simp_all add: strftime_Y_m_def ms_def ms'_def)
  have "(strftime_Y_m d < strftime_Y_m d') =
        (year d < year d' \<or> (year d = year d' \<and> month d < month d'))"
    unfolding k less_append_same_length [OF len] o1 o2 by (simp add: t1)
  also have "\<dots> = ((year d, month d) < (year d', month d'))"
    by (simp add: less_prod_simp) arith
  finally show "(strftime_Y_m d < strftime_Y_m d') = ((year d, month d) < (year d', month d'))" .
  have "(strftime_Y_m d = strftime_Y_m d') = (year d = year d' \<and> month d = month d')"
    unfolding k using len by (simp add: o2 t2)
  then show "(strftime_Y_m d = strftime_Y_m d') = ((year d, month d) = (year d', month d'))"
    by simp
qed

section \<open>Auxiliary facts: the monthly loop\<close>

lemma cell_add_to_month:
  "cell (add_to_month fadd c k a md) c' k' =
     (if c' = c \<and> k' = k then fadd (cell md c k) a else cell md c' k')"
  by (simp add: cell_def add_to_month_def dict_get_update dict_get_dict_add)

lemma month_keys_add_to_month:
  "month_keys (add_to_month fadd c k a md) c' = month_keys md c' \<union> (if c' = c then {k} else {})"
  by (simp add: month_keys_def add_to_month_def dict_get_update keys_dict_add)

lemma categories_add_to_month: "fst ` set (add_to_month fadd c k a md) = insert c (fst ` set md)"
  by (simp add: add_to_month_def dom_update)

lemma well_keyed_add_to_month: "well_keyed md \<Longrightarrow> well_keyed (add_to_month fadd c k a md)"
  by (simp add: well_keyed_def add_to_month_def distinct_update dict_get_update distinct_dict_add)

lemma well_keyed_empty: "well_keyed []"
  by (simp add: well_keyed_def dict_get_def)

lemma filled_from_Nil: "filled_from fadd [] md md"
  by (simp add: filled_from_def)

lemma filled_from_Cons:
  assumes d: "t_date data = Some date_obj"
    and r: "filled_from fadd rest
              (add_to_month fadd (loop_category data) (strftime_Y_m date_obj) (loop_amount data) md) md'"
  shows "filled_from fadd (data # rest) md md'"
proof -
  let ?md1 = "add_to_month fadd (loop_category data) (strftime_Y_m date_obj) (loop_amount data) md"
  have k: "loop_key data = strftime_Y_m date_obj" by (simp add: loop_key_def d)
  have cats: "fst ` set md' = fst ` set ?md1 \<union> loop_category ` set rest"
    and cells: "\<And>c k. cell md' c k =
             foldl fadd (cell ?md1 c k)
               (map loop_amount (filter (\<lambda>t. loop_category t = c \<and> loop_key t = k) rest))"
    and keys: "\<And>c. month_keys md' c = month_keys ?md1 c \<union>
                  loop_key ` set (filter (\<lambda>t. loop_category t = c) rest)"
    and wk: "well_keyed ?md1 \<longrightarrow> well_keyed md'"
    using r unfolding filled_from_def by simp_all
  have 2: "fst ` set md' = fst ` set md \<union> loop_category ` set (data # rest)"
    unfolding cats categories_add_to_month by simp
  have 3: "cell md' c k =
             foldl fadd (cell md c k)
               (map loop_amount (filter (\<lambda>t. loop_category t = c \<and> loop_key t = k) (data # rest)))" for c k
    unfolding cells cell_add_to_month k [symmetric]
    by (cases "loop_category data = c \<and> loop_key data = k") auto
  have 4: "month_keys md' c = month_keys md c \<union>
                  loop_key ` set (filter (\<lambda>t. loop_category t = c) (data # rest))" for c
    unfolding keys month_keys_add_to_month using k by (cases "loop_category data = c") simp_all
  have 5: "well_keyed md \<longrightarrow> well_keyed md'"
    using wk by (simp add: well_keyed_add_to_month)
  show ?thesis unfolding filled_from_def using 2 3 4 5 by simp
qed

lemma monthly_loop_invariant:
  assumes "\<forall>t \<in> set docs. reported t \<longrightarrow> t_date t \<noteq> None"
  shows "\<exists>md' td'. monthly_loop fadd docs md td = Inr (md', td')
           \<and> filled_from fadd (filter reported docs) md md'"
  using assms
proof (induction docs arbitrary: md td)
  case Nil
  then show ?case by (simp add: filled_from_Nil)
next
  case (Cons data rest)
  have rest: "\<forall>t \<in> set rest. reported t \<longrightarrow> t_date t \<noteq> None"
    using Cons.prems by simp
  show ?case
  proof (cases "reported data")
    case False
    from Cons.IH [OF rest, of md td] show ?thesis using False by (simp add: reported_def)
  next
    case True
    with Cons.prems obtain date_obj where d: "t_date data = Some date_obj" by auto
    let ?md1 = "add_to_month fadd (loop_category data) (strftime_Y_m date_obj) (loop_amount data) md"
    let ?td1 = "AList.update (loop_category data) (get_default (t_type data) []) td"
    from Cons.IH [OF rest, of ?md1 ?td1] obtain md' td' where
      r: "monthly_loop fadd rest ?md1 ?td1 = Inr (md', td')" and
      inv: "filled_from fadd (filter reported rest) ?md1 md'"
      by blast
    have 1: "monthly_loop fadd (data # rest) md td = Inr (md', td')"
      using True d r by (auto simp: Let_def reported_def loop_category_def loop_amount_def)
    have 2: "filled_from fadd (filter reported (data # rest)) md md'"
      using True filled_from_Cons [OF d inv] by simp
    show ?thesis using 1 2 by blast
  qed
qed

lemma reported_transactions:
  "filter reported (transactions_where_user st user_id) = report_transactions st user_id"
  by (simp add: transactions_where_user_def report_transactions_def reported_def conj_commute)

lemma filled_from_empty:
  assumes "filled_from fadd docs [] md'"
  shows "well_keyed md'"
    and "fst ` set md' = loop_category ` set docs"
    and "\<And>c k. cell md' c k =
           foldl fadd 0 (map loop_amount (filter (\<lambda>t. loop_category t = c \<and> loop_key t = k) docs))"
    and "\<And>c. month_keys md' c = loop_key ` set (filter (\<lambda>t. loop_category t = c) docs)"
proof -
  have e: "cell [] c k = 0" "month_keys [] c = {}" for c k
    by (simp_all add: cell_def month_keys_def dict_get_def)
  show "well_keyed md'" using assms well_keyed_empty by (simp add: filled_from_def)
  show "fst ` set md' = loop_category ` set docs" using assms by (simp add: filled_from_def)
  show "cell md' c k =
           foldl fadd 0 (map loop_amount (filter (\<lambda>t. loop_category t = c \<and> loop_key t = k) docs))" for c k
    using assms e by (simp add: filled_from_def)
  show "month_keys md' c = loop_key ` set (filter (\<lambda>t. loop_category t = c) docs)" for c
    using assms e by (simp add: filled_from_def)
qed

lemma month_key_order:
  assumes "four_digit a" and "four_digit b"
  shows "(month_key a < month_key b) = (a < b)" and "(month_key a = month_key b) = (a = b)"
proof -
  let ?d = "\<lambda>m. \<lparr>year = fst m, month = snd m, day = 1, hour = 0, minute = 0, second = 0, microsecond = 0\<rparr>"
  have k: "month_key m = strftime_Y_m (?d m)" for m
    by (simp add: month_key_def strftime_Y_m_def)
  have v: "four_digit_year (?d a)" "four_digit_year (?d b)"
    using assms by (simp_all add: four_digit_def four_digit_year_def)
  show "(month_key a < month_key b) = (a < b)"
    unfolding k strftime_Y_m_order(1) [OF v] by simp
  show "(month_key a = month_key b) = (a = b)"
    unfolding k strftime_Y_m_order(2) [OF v] by (simp add: prod_eq_iff)
qed

lemma sorted_map_month_key:
  assumes "\<forall>m \<in> set ms. four_digit m" and "sorted ms"
  shows "sorted (map month_key ms)"
proof -
  have "sorted_wrt (\<lambda>a b. month_key a \<le> month_key b) ms"
  proof (rule sorted_wrt_mono_rel [of ms "(\<le>)"])
    fix a b assume "a \<in> set ms" "b \<in> set ms" "a \<le> b"
    then have "four_digit a" "four_digit b" "a < b \<or> a = b" using assms(1) by auto
    then show "month_key a \<le> month_key b"
      using month_key_order(1) [of a b] by (auto simp: le_less)
  next
    show "sorted_wrt (\<le>) ms" using assms(2) by simp
  qed
  then show ?thesis by (simp add: sorted_map)
qed

lemma distinct_map_month_key:
  assumes "\<forall>m \<in> set ms. four_digit m" and "distinct ms"
  shows "distinct (map month_key ms)"
proof -
  have "inj_on month_key (set ms)"
    using assms(1) month_key_order(2) by (auto intro!: inj_onI)
  then show ?thesis using assms(2) by (simp add: distinct_map)
qed

lemma months_of_facts:
  "sorted (months_of docs c)" "distinct (months_of docs c)"
  "set (months_of docs c) = month_of ` set (filter (\<lambda>t. category_of t = c) docs)"
  by (simp_all add: months_of_def)

lemma padded_single: "length xs = 1 \<Longrightarrow> [0, xs ! 0] = (0 :: real) # xs"
  by (cases xs) simp_all

lemma loop_key_month:
  assumes "t_date t = Some d"
  shows "loop_key t = month_key (month_of t)"
  using assms by (simp add: loop_key_def month_of_def month_key_def strftime_Y_m_def)

lemma four_digit_month_of:
  assumes "t_date t = Some d" and "four_digit_year d"
  shows "four_digit (month_of t)"
  using assms by (simp add: month_of_def four_digit_def four_digit_year_def)

lemma trend_of_item:
  assumes inv: "filled_from fadd docs [] md'" and item: "(c, months) \<in> set md'"
    and dated: "\<forall>t \<in> set docs. \<exists>d. t_date t = Some d \<and> four_digit_year d"
  shows "trend_of months = trend_by_month fadd docs c"
proof -
  have key: "loop_key t = month_key (month_of t)" and fd: "four_digit (month_of t)"
    if "t \<in> set docs" for t
    using dated that loop_key_month four_digit_month_of by blast+
  have wk: "well_keyed md'" using inv by (rule filled_from_empty(1))
  then have "distinct (map fst md')" by (simp add: well_keyed_def)
  then have "map_of md' c = Some months" using item by simp
  then have get: "dict_get md' c [] = months" by (simp add: dict_get_def)
  have dm: "distinct (map fst months)" using wk get by (auto simp: well_keyed_def)
  have fdm: "\<forall>m \<in> set (months_of docs c). four_digit m"
    using fd by (auto simp: months_of_facts(3))
  have "set (map fst months) = month_keys md' c" by (simp add: month_keys_def get)
  also have "\<dots> = loop_key ` set (filter (\<lambda>t. category_of t = c) docs)"
    by (simp add: filled_from_empty(4) [OF inv] loop_category_eq)
  also have "\<dots> = month_key ` month_of ` set (filter (\<lambda>t. category_of t = c) docs)"
    using key by (auto simp: image_iff)
  also have "\<dots> = set (map month_key (months_of docs c))"
    by (simp add: months_of_facts(3))
  finally have sm: "set (map fst months) = set (map month_key (months_of docs c))" .
  have keys: "sort (map fst months) = map month_key (months_of docs c)"
  proof (rule sorted_distinct_set_unique)
    show "sorted (sort (map fst months))" by simp
    show "distinct (sort (map fst months))" using dm by simp
    show "sorted (map month_key (months_of docs c))"
      using fdm months_of_facts(1) by (rule sorted_map_month_key)
    show "distinct (map month_key (months_of docs c))"
      using fdm months_of_facts(2) by (rule distinct_map_month_key)
    show "set (sort (map fst months)) = set (map month_key (months_of docs c))"
      using sm by simp
  qed
  have val: "dict_get months (month_key m) 0 = month_sum fadd docs c m"
    if m: "m \<in> set (months_of docs c)" for m
  proof -
    have fm: "four_digit m" using fdm m by simp
    have "filter (\<lambda>t. category_of t = c \<and> loop_key t = month_key m) docs
          = filter (\<lambda>t. category_of t = c \<and> month_of t = m) docs"
    proof (rule filter_cong [OF refl])
      fix t assume t: "t \<in> set docs"
      have "(month_key (month_of t) = month_key m) = (month_of t = m)"
        using fd [OF t] fm by (rule month_key_order(2))
      then show "(category_of t = c \<and> loop_key t = month_key m) = (category_of t = c \<and> month_of t = m)"
        by (simp add: key [OF t])
    qed
    then have "foldl fadd 0 (map loop_amount (filter (\<lambda>t. loop_category t = c \<and> loop_key t = month_key m) docs))
          = month_sum fadd docs c m"
      by (simp add: month_sum_def summed_def loop_category_eq loop_amount_eq)
    then show ?thesis
      using filled_from_empty(3) [OF inv, of c "month_key m"] by (simp add: cell_def get)
  qed
  let ?per_month = "map (month_sum fadd docs c) (months_of docs c)"
  have "map (\<lambda>k. dict_get months k 0) (map month_key (months_of docs c)) = ?per_month"
    unfolding map_map by (rule map_cong) (simp_all add: val)
  then have eq: "map (\<lambda>m. dict_get months m 0) (sort (map fst months)) = ?per_month"
    unfolding keys .
  have "trend_of months = (if length ?per_month = 1 then [0, ?per_month ! 0] else ?per_month)"
    unfolding trend_of_def Let_def eq ..
  also have "\<dots> = (if length ?per_month = 1 then 0 # ?per_month else ?per_month)"
    using padded_single [of ?per_month] by (cases "length ?per_month = 1") simp_all
  also have "\<dots> = trend_by_month fadd docs c"
    unfolding trend_by_month_def Let_def ..
  finally show ?thesis .
qed

lemma trend_by_month_length:
  assumes "c \<in> category_of ` set docs"
  shows "2 \<le> length (trend_by_month fadd docs c)"
proof -
  have "set (months_of docs c) \<noteq> {}" using assms by (auto simp: months_of_facts(3))
  then have "months_of docs c \<noteq> []" by auto
  then have "1 \<le> length (months_of docs c)" by (cases "months_of docs c") simp_all
  then show ?thesis by (auto simp: trend_by_month_def Let_def)
qed

section \<open>The edges of the month\<close>

text \<open>
  The query compares the stored instant with the start of the month in the zone. A date
  that \<^verbatim>\<open>add_transaction\<close> stores for the first day of the month is midnight in UTC,
  before that start, and the expense is left out; the query has no upper bound, and an
  expense dated in a later month is counted.
\<close>

lemma first_day_expense_is_left_out:
  "current_month_expenses \<lparr>categories = [],
      transactions =
        [\<lparr>t_userId = ''u'', t_type = Some ''expense'', t_amount = Some 80, t_category = Some ''Comida'', t_description = ''desayuno'', t_date = Some (strptime_date 2024 3 1)\<rparr>],
      settings = [''u'' \<mapsto> \<lparr>monthlyGoal = Some 500\<rparr>]\<rparr> ''u'' (strptime_date 2024 3 20)
     = [\<lparr>t_userId = ''u'', t_type = Some ''expense'', t_amount = Some 80, t_category = Some ''Comida'', t_description = ''desayuno'', t_date = Some (strptime_date 2024 3 1)\<rparr>]
   \<and> pc_category (get_most_problematic_category (+) \<lparr>west_hour = 6, west_minute = 37, west_second = 0\<rparr> (Some \<lparr>categories = [],
      transactions =
        [\<lparr>t_userId = ''u'', t_type = Some ''expense'', t_amount = Some 80, t_category = Some ''Comida'', t_description = ''desayuno'', t_date = Some (strptime_date 2024 3 1)\<rparr>],
      settings = [''u'' \<mapsto> \<lparr>monthlyGoal = Some 500\<rparr>]\<rparr>) None ''u'' (strptime_date 2024 3 20)) = Some ''Otros''
   \<and> pc_current_spend (get_most_problematic_category (+) \<lparr>west_hour = 6, west_minute = 37, west_second = 0\<rparr> (Some \<lparr>categories = [],
      transactions =
        [\<lparr>t_userId = ''u'', t_type = Some ''expense'', t_amount = Some 80, t_category = Some ''Comida'', t_description = ''desayuno'', t_date = Some (strptime_date 2024 3 1)\<rparr>],
      settings = [''u'' \<mapsto> \<lparr>monthlyGoal = Some 500\<rparr>]\<rparr>) None ''u'' (strptime_date 2024 3 20)) = 0"
  by (simp add: get_most_problematic_category_def expenses_since_def start_of_month_def
        datetime_le_def current_month_expenses_def month_of_def strptime_date_def
        get_default_def category_totals_of_def Let_def)

lemma later_month_expense_is_counted:
  "current_month_expenses \<lparr>categories = [],
      transactions =
        [\<lparr>t_userId = ''u'', t_type = Some ''expense'', t_amount = Some 80, t_category = Some ''Comida'', t_description = ''reserva'', t_date = Some (strptime_date 2024 4 2)\<rparr>],
      settings = [''u'' \<mapsto> \<lparr>monthlyGoal = Some 500\<rparr>]\<rparr> ''u'' (strptime_date 2024 3 20) = []
   \<and> pc_category (get_most_problematic_category (+) \<lparr>west_hour = 6, west_minute = 37, west_second = 0\<rparr> (Some \<lparr>categories = [],
      transactions =
        [\<lparr>t_userId = ''u'', t_type = Some ''expense'', t_amount = Some 80, t_category = Some ''Comida'', t_description = ''reserva'', t_date = Some (strptime_date 2024 4 2)\<rparr>],
      settings = [''u'' \<mapsto> \<lparr>monthlyGoal = Some 500\<rparr>]\<rparr>) None ''u'' (strptime_date 2024 3 20)) = Some ''Comida''
   \<and> pc_current_spend (get_most_problematic_category (+) \<lparr>west_hour = 6, west_minute = 37, west_second = 0\<rparr> (Some \<lparr>categories = [],
      transactions =
        [\<lparr>t_userId = ''u'', t_type = Some ''expense'', t_amount = Some 80, t_category = Some ''Comida'', t_description = ''reserva'', t_date = Some (strptime_date 2024 4 2)\<rparr>],
      settings = [''u'' \<mapsto> \<lparr>monthlyGoal = Some 500\<rparr>]\<rparr>) None ''u'' (strptime_date 2024 3 20)) = 80"
proof -
  have n: "normalize_name ''Comida'' = ''Comida''" by code_simp
  show ?thesis
    by (simp add: get_most_problematic_category_def expenses_since_def start_of_month_def
          datetime_le_def current_month_expenses_def month_of_def strptime_date_def
          get_default_def category_totals_of_def Let_def n dict_add_def dict_get_def)
qed

section \<open>The claims\<close>

subsection \<open>C1\<close>

text \<open>
  Claim C1. For every user and every store that is available and answers the query, the
  list \<^verbatim>\<open>_get_user_categories\<close> returns has \<^verbatim>\<open>"Otros"\<close> as its last element, has no
  duplicates, and its elements before \<^verbatim>\<open>"Otros"\<close> are sorted ascending.
\<close>

theorem C1_listing_ends_with_otros:
  "\<exists>cs. get_user_categories (Some st) None user_id = Inr cs
        \<and> last cs = ''Otros'' \<and> distinct cs \<and> sorted (butlast cs)"
proof -
  let ?all = "fold add_category_name (categories_where_user st user_id) (set DEFAULT_CATEGORIES)"
  have s: "sorted (sorted_list_of_set ?all)" and d: "distinct (sorted_list_of_set ?all)"
    by simp_all
  show ?thesis
    using otros_last_shape [OF s d] by (simp add: get_user_categories_def Let_def)
qed

subsection \<open>C2\<close>

text \<open>
  Claim C2, as amended. \<^verbatim>\<open>_get_user_categories\<close> does not trim or title-case the names
  it fetches: it adds every non-empty stored name of the user, as stored, to the set
  of the defaults. The entries of the result are exactly the defaults, those stored names
  and \<^verbatim>\<open>"Otros"\<close>, each once; two stored names give one entry only when they are the
  same string.
\<close>

theorem C2_listing_keeps_stored_names:
  "\<exists>cs. get_user_categories (Some st) None user_id = Inr cs \<and> distinct cs \<and>
        set cs = set DEFAULT_CATEGORIES
                 \<union> {n. n \<noteq> [] \<and> (\<exists>d \<in> set (categories st). c_userId d = user_id \<and> c_name d = Some n)}
                 \<union> {''Otros''}"
proof -
  let ?all = "fold add_category_name (categories_where_user st user_id) (set DEFAULT_CATEGORIES)"
  have fin: "finite ?all" by (rule finite_fold_add_category_name) simp
  have d: "distinct (otros_last (sorted_list_of_set ?all))"
    by (rule otros_last_shape) simp_all
  have "set (otros_last (sorted_list_of_set ?all)) = insert ''Otros'' ?all"
    using fin by (simp add: set_otros_last)
  also have "\<dots> = set DEFAULT_CATEGORIES
                 \<union> {n. n \<noteq> [] \<and> (\<exists>d \<in> set (categories st). c_userId d = user_id \<and> c_name d = Some n)}
                 \<union> {''Otros''}"
    by (auto simp: fold_add_category_name_set categories_where_user_def)
  finally show ?thesis using d by (simp add: get_user_categories_def Let_def)
qed

text \<open>
  The claim as stated fails: the stored names \<^verbatim>\<open>"viajes"\<close> and \<^verbatim>\<open>" Viajes "\<close> have the
  same normal form and are two entries of the listing.
\<close>

theorem C2_listing_not_normalized_counterexample:
  "normalize_name ''viajes'' = normalize_name '' Viajes '' \<and>
   get_user_categories
     (Some \<lparr>categories =
              [\<lparr>c_userId = ''u'', c_name = Some ''viajes'', c_createdAt = (strptime_date 2024 3 1)\<rparr>,
               \<lparr>c_userId = ''u'', c_name = Some '' Viajes '', c_createdAt = (strptime_date 2024 3 2)\<rparr>],
            transactions = [], settings = Map.empty\<rparr>) None ''u''
   = Inr ['' Viajes '', ''Comida'', ''Entretenimiento'', ''Renta'', ''Servicios'', ''Transporte'',
          ''viajes'', ''Otros'']"
  by code_simp

subsection \<open>C3\<close>

text \<open>
  Claim C3, as amended. For every user and every pair of names whose normal forms are not
  empty, provided a custom-category record matches the user and the normal form of the
  old name, or that normal form is a default category, \<^verbatim>\<open>update_category\<close> answers 200,
  gives every transaction of the user whose category is the normal form of the old name
  the normal form of the new name, leaves the other transactions as they are, and the
  count in its message is the number of those transactions before the call.
\<close>

theorem C3_rename_reassigns:
  assumes "normalize_name old_raw \<noteq> []" and "normalize_name new_raw \<noteq> []"
    and "(\<exists>d \<in> set (categories st). names_category user_id (normalize_name old_raw) d)
         \<or> normalize_name old_raw \<in> set DEFAULT_CATEGORIES"
  shows "\<exists>st'. update_category (Some st) None user_id (Some old_raw) (Some new_raw) =
           ((Updated_body (normalize_name old_raw) (normalize_name new_raw)
               (length (filter (in_category user_id (normalize_name old_raw)) (transactions st))), 200),
            Some st')
         \<and> transactions st' =
             reassign_all user_id (normalize_name old_raw) (normalize_name new_raw) (transactions st)"
proof (cases "\<exists>d \<in> set (categories st). names_category user_id (normalize_name old_raw) d")
  case True
  from categories_where_user_name_found [OF True] obtain i where
    i: "categories_where_user_name st user_id (normalize_name old_raw) = [(i, categories st ! i)]"
    by blast
  show ?thesis using assms(1,2) i
    by (simp add: update_category_def get_default_def Let_def transactions_where_categories_update
          reassign_step commit_reassigns)
next
  case False
  then have none: "categories_where_user_name st user_id (normalize_name old_raw) = []"
    by (rule categories_where_user_name_none)
  from False assms(3) have dflt: "normalize_name old_raw \<in> set DEFAULT_CATEGORIES" by simp
  show ?thesis using assms(1,2) none dflt
    by (simp add: update_category_def get_default_def Let_def reassign_step commit_reassigns)
qed

text \<open>
  The amended claim at a default category: renaming \<^verbatim>\<open>"comida"\<close> to \<^verbatim>\<open>" alimentos"\<close>
  with two transactions in \<^verbatim>\<open>"Comida"\<close> reports the count 2.
\<close>

theorem C3_rename_reassigns_witness:
  "fst (update_category
     (Some \<lparr>categories = [],
            transactions =
              [\<lparr>t_userId = ''u'', t_type = Some ''expense'', t_amount = Some 60,
                t_category = Some ''Comida'', t_description = ''pan'',
                t_date = Some (strptime_date 2024 3 5)\<rparr>,
               \<lparr>t_userId = ''u'', t_type = Some ''expense'', t_amount = Some 400,
                t_category = Some ''Renta'', t_description = ''marzo'',
                t_date = Some (strptime_date 2024 3 1)\<rparr>,
               \<lparr>t_userId = ''u'', t_type = Some ''expense'', t_amount = Some 40,
                t_category = Some ''Comida'', t_description = ''cena'',
                t_date = Some (strptime_date 2024 3 9)\<rparr>],
            settings = Map.empty\<rparr>)
     None ''u'' (Some ''comida'') (Some '' alimentos''))
   = (Updated_body ''Comida'' ''Alimentos'' 2, 200)"
proof -
  let ?st = "\<lparr>categories = [],
            transactions =
              [\<lparr>t_userId = ''u'', t_type = Some ''expense'', t_amount = Some 60,
                t_category = Some ''Comida'', t_description = ''pan'',
                t_date = Some (strptime_date 2024 3 5)\<rparr>,
               \<lparr>t_userId = ''u'', t_type = Some ''expense'', t_amount = Some 400,
                t_category = Some ''Renta'', t_description = ''marzo'',
                t_date = Some (strptime_date 2024 3 1)\<rparr>,
               \<lparr>t_userId = ''u'', t_type = Some ''expense'', t_amount = Some 40,
                t_category = Some ''Comida'', t_description = ''cena'',
                t_date = Some (strptime_date 2024 3 9)\<rparr>],
            settings = Map.empty\<rparr>"
  have n: "normalize_name ''comida'' = ''Comida''" "normalize_name '' alimentos'' = ''Alimentos''"
    by code_simp+
  have h1: "normalize_name ''comida'' \<noteq> []" and h2: "normalize_name '' alimentos'' \<noteq> []"
    by (simp_all add: n)
  have h3: "(\<exists>d \<in> set (categories ?st). names_category ''u'' (normalize_name ''comida'') d)
         \<or> normalize_name ''comida'' \<in> set DEFAULT_CATEGORIES"
    by (simp add: n DEFAULT_CATEGORIES_def)
  from C3_rename_reassigns [OF h1 h2 h3] show ?thesis
    by (auto simp: n in_category_def)
qed

text \<open>
  The claim as stated fails: when no record matches and the old name is not a default,
  the guard before the second step answers 404 and the transaction in \<^verbatim>\<open>"Viajes"\<close>
  keeps its category.
\<close>

theorem C3_rename_not_found_counterexample:
  "normalize_name ''viajes'' \<noteq> [] \<and> normalize_name ''paseos'' \<noteq> [] \<and>
   in_category ''u'' (normalize_name ''viajes'')
     \<lparr>t_userId = ''u'', t_type = Some ''expense'', t_amount = Some 80, t_category = Some ''Viajes'',
      t_description = ''bus'', t_date = Some (strptime_date 2024 3 5)\<rparr> \<and>
   update_category
     (Some \<lparr>categories = [],
            transactions =
              [\<lparr>t_userId = ''u'', t_type = Some ''expense'', t_amount = Some 80,
                t_category = Some ''Viajes'', t_description = ''bus'',
                t_date = Some (strptime_date 2024 3 5)\<rparr>],
            settings = Map.empty\<rparr>)
     None ''u'' (Some ''viajes'') (Some ''paseos'')
   = ((Error_body, 404),
      Some \<lparr>categories = [],
            transactions =
              [\<lparr>t_userId = ''u'', t_type = Some ''expense'', t_amount = Some 80,
                t_category = Some ''Viajes'', t_description = ''bus'',
                t_date = Some (strptime_date 2024 3 5)\<rparr>],
            settings = Map.empty\<rparr>)"
proof -
  have n: "normalize_name ''viajes'' = ''Viajes''" "normalize_name ''paseos'' = ''Paseos''"
    by code_simp+
  show ?thesis
    by (simp add: n update_category_def get_default_def Let_def categories_where_user_name_def
          DEFAULT_CATEGORIES_def in_category_def)
qed

subsection \<open>C4\<close>

text \<open>
  Claim C4, as amended. For every user and every category of the listing of the user
  that is not a default and has a persisted record under the normal form of the requested
  name, \<^verbatim>\<open>delete_category\<close> answers 200, deletes that one category record (the first
  the query returns), gives every transaction of the user in that category the category
  \<^verbatim>\<open>"Otros"\<close>, leaves the other transactions and the settings as they are, and its
  message carries the name and the number of reassigned transactions. The number of
  deleted records is not part of the response.
\<close>

theorem C4_delete_reassigns:
  assumes "get_user_categories (Some st) None user_id = Inr listing"
    and "normalize_name raw \<in> set listing"
    and "normalize_name raw \<notin> set DEFAULT_CATEGORIES"
    and "\<exists>d \<in> set (categories st). names_category user_id (normalize_name raw) d"
  shows "\<exists>i st'. delete_category (Some st) None user_id (Some raw) =
           ((Deleted_body (normalize_name raw)
               (length (filter (in_category user_id (normalize_name raw)) (transactions st))), 200),
            Some st')
         \<and> i < length (categories st)
         \<and> names_category user_id (normalize_name raw) (categories st ! i)
         \<and> (\<forall>j < i. \<not> names_category user_id (normalize_name raw) (categories st ! j))
         \<and> categories st' = take i (categories st) @ drop (Suc i) (categories st)
         \<and> transactions st' = reassign_all user_id (normalize_name raw) ''Otros'' (transactions st)
         \<and> settings st' = settings st"
proof -
  have ne: "normalize_name raw \<noteq> []"
    using empty_not_listed [OF assms(1)] assms(2) by auto
  from categories_where_user_name_found [OF assms(4)] obtain i where
    i: "categories_where_user_name st user_id (normalize_name raw) = [(i, categories st ! i)]"
       "i < length (categories st)" "names_category user_id (normalize_name raw) (categories st ! i)"
       "\<forall>j < i. \<not> names_category user_id (normalize_name raw) (categories st ! j)"
    by blast
  show ?thesis using ne assms(3) i
    by (intro exI [of _ i])
       (simp add: delete_category_def get_default_def Let_def transactions_where_categories_update
          reassign_step commit_reassigns delete_at_def)
qed

text \<open>
  The amended claim on the example of the specification: deleting \<^verbatim>\<open>"Viajes"\<close> with
  three transactions in it.
\<close>

theorem C4_delete_reassigns_witness:
  "\<exists>st'. delete_category (Some \<lparr>categories = [\<lparr>c_userId = ''u'', c_name = Some ''Viajes'', c_createdAt = strptime_date 2024 2 7\<rparr>],
      transactions =
        [\<lparr>t_userId = ''u'', t_type = Some ''expense'', t_amount = Some 120, t_category = Some ''Viajes'', t_description = ''tren'', t_date = Some (strptime_date 2024 2 3)\<rparr>,
         \<lparr>t_userId = ''u'', t_type = Some ''expense'', t_amount = Some 35, t_category = Some ''Viajes'', t_description = ''taxi'', t_date = Some (strptime_date 2024 2 4)\<rparr>,
         \<lparr>t_userId = ''u'', t_type = Some ''expense'', t_amount = Some 60, t_category = Some ''Comida'', t_description = ''cena'', t_date = Some (strptime_date 2024 2 4)\<rparr>,
         \<lparr>t_userId = ''u'', t_type = Some ''expense'', t_amount = Some 300, t_category = Some ''Viajes'', t_description = ''hotel'', t_date = Some (strptime_date 2024 2 5)\<rparr>],
      settings = Map.empty\<rparr>) None ''u'' (Some '' viajes'')
           = ((Deleted_body ''Viajes'' 3, 200), Some st')
        \<and> categories st' = []
        \<and> map t_category (transactions st') =
            [Some ''Otros'', Some ''Otros'', Some ''Comida'', Some ''Otros'']"
proof -
  let ?st = "\<lparr>categories = [\<lparr>c_userId = ''u'', c_name = Some ''Viajes'', c_createdAt = strptime_date 2024 2 7\<rparr>],
      transactions =
        [\<lparr>t_userId = ''u'', t_type = Some ''expense'', t_amount = Some 120, t_category = Some ''Viajes'', t_description = ''tren'', t_date = Some (strptime_date 2024 2 3)\<rparr>,
         \<lparr>t_userId = ''u'', t_type = Some ''expense'', t_amount = Some 35, t_category = Some ''Viajes'', t_description = ''taxi'', t_date = Some (strptime_date 2024 2 4)\<rparr>,
         \<lparr>t_userId = ''u'', t_type = Some ''expense'', t_amount = Some 60, t_category = Some ''Comida'', t_description = ''cena'', t_date = Some (strptime_date 2024 2 4)\<rparr>,
         \<lparr>t_userId = ''u'', t_type = Some ''expense'', t_amount = Some 300, t_category = Some ''Viajes'', t_description = ''hotel'', t_date = Some (strptime_date 2024 2 5)\<rparr>],
      settings = Map.empty\<rparr>"
  have n: "normalize_name '' viajes'' = ''Viajes''" by code_simp
  have h1: "get_user_categories (Some ?st) None ''u''
        = Inr [''Comida'', ''Entretenimiento'', ''Renta'', ''Servicios'', ''Transporte'', ''Viajes'', ''Otros'']"
    by code_simp
  have h2: "normalize_name '' viajes''
        \<in> set [''Comida'', ''Entretenimiento'', ''Renta'', ''Servicios'', ''Transporte'', ''Viajes'', ''Otros'']"
    by (simp add: n)
  have h3: "normalize_name '' viajes'' \<notin> set DEFAULT_CATEGORIES"
    by (simp add: n DEFAULT_CATEGORIES_def)
  have h4: "\<exists>d \<in> set (categories ?st). names_category ''u'' (normalize_name '' viajes'') d"
    by (simp add: n names_category_def)
  from C4_delete_reassigns [OF h1 h2 h3 h4] show ?thesis
    by (auto simp: n in_category_def reassign_all_def)
qed

text \<open>
  The claim as stated fails twice. A custom category stored as \<^verbatim>\<open>"viajes"\<close> is listed
  and has its record, and deleting \<^verbatim>\<open>"viajes"\<close> answers 404 and changes nothing: the
  handler looks for the normal form \<^verbatim>\<open>"Viajes"\<close>. And on the example of the
  specification the only count the response carries is 3, the reassigned transactions;
  the deleted-record count 1 is not in it.
\<close>

theorem C4_delete_counterexample:
  "get_user_categories (Some \<lparr>categories = [\<lparr>c_userId = ''u'', c_name = Some ''viajes'', c_createdAt = strptime_date 2024 2 7\<rparr>],
      transactions =
        [\<lparr>t_userId = ''u'', t_type = Some ''expense'', t_amount = Some 120, t_category = Some ''viajes'', t_description = ''tren'', t_date = Some (strptime_date 2024 2 3)\<rparr>,
         \<lparr>t_userId = ''u'', t_type = Some ''expense'', t_amount = Some 35, t_category = Some ''viajes'', t_description = ''taxi'', t_date = Some (strptime_date 2024 2 4)\<rparr>],
      settings = Map.empty\<rparr>) None ''u''
     = Inr [''Comida'', ''Entretenimiento'', ''Renta'', ''Servicios'', ''Transporte'', ''viajes'', ''Otros'']
   \<and> delete_category (Some \<lparr>categories = [\<lparr>c_userId = ''u'', c_name = Some ''viajes'', c_createdAt = strptime_date 2024 2 7\<rparr>],
      transactions =
        [\<lparr>t_userId = ''u'', t_type = Some ''expense'', t_amount = Some 120, t_category = Some ''viajes'', t_description = ''tren'', t_date = Some (strptime_date 2024 2 3)\<rparr>,
         \<lparr>t_userId = ''u'', t_type = Some ''expense'', t_amount = Some 35, t_category = Some ''viajes'', t_description = ''taxi'', t_date = Some (strptime_date 2024 2 4)\<rparr>],
      settings = Map.empty\<rparr>) None ''u'' (Some ''viajes'')
     = ((Error_body, 404), Some \<lparr>categories = [\<lparr>c_userId = ''u'', c_name = Some ''viajes'', c_createdAt = strptime_date 2024 2 7\<rparr>],
      transactions =
        [\<lparr>t_userId = ''u'', t_type = Some ''expense'', t_amount = Some 120, t_category = Some ''viajes'', t_description = ''tren'', t_date = Some (strptime_date 2024 2 3)\<rparr>,
         \<lparr>t_userId = ''u'', t_type = Some ''expense'', t_amount = Some 35, t_category = Some ''viajes'', t_description = ''taxi'', t_date = Some (strptime_date 2024 2 4)\<rparr>],
      settings = Map.empty\<rparr>)
   \<and> counts_in (fst (fst (delete_category (Some \<lparr>categories = [\<lparr>c_userId = ''u'', c_name = Some ''Viajes'', c_createdAt = strptime_date 2024 2 7\<rparr>],
      transactions =
        [\<lparr>t_userId = ''u'', t_type = Some ''expense'', t_amount = Some 120, t_category = Some ''Viajes'', t_description = ''tren'', t_date = Some (strptime_date 2024 2 3)\<rparr>,
         \<lparr>t_userId = ''u'', t_type = Some ''expense'', t_amount = Some 35, t_category = Some ''Viajes'', t_description = ''taxi'', t_date = Some (strptime_date 2024 2 4)\<rparr>,
         \<lparr>t_userId = ''u'', t_type = Some ''expense'', t_amount = Some 60, t_category = Some ''Comida'', t_description = ''cena'', t_date = Some (strptime_date 2024 2 4)\<rparr>,
         \<lparr>t_userId = ''u'', t_type = Some ''expense'', t_amount = Some 300, t_category = Some ''Viajes'', t_description = ''hotel'', t_date = Some (strptime_date 2024 2 5)\<rparr>],
      settings = Map.empty\<rparr>) None ''u'' (Some ''Viajes'')))) = [3]"
proof -
  have n: "normalize_name ''viajes'' = ''Viajes''" "normalize_name ''Viajes'' = ''Viajes''"
    by code_simp+
  have a: "get_user_categories (Some \<lparr>categories = [\<lparr>c_userId = ''u'', c_name = Some ''viajes'', c_createdAt = strptime_date 2024 2 7\<rparr>],
      transactions =
        [\<lparr>t_userId = ''u'', t_type = Some ''expense'', t_amount = Some 120, t_category = Some ''viajes'', t_description = ''tren'', t_date = Some (strptime_date 2024 2 3)\<rparr>,
         \<lparr>t_userId = ''u'', t_type = Some ''expense'', t_amount = Some 35, t_category = Some ''viajes'', t_description = ''taxi'', t_date = Some (strptime_date 2024 2 4)\<rparr>],
      settings = Map.empty\<rparr>) None ''u''
     = Inr [''Comida'', ''Entretenimiento'', ''Renta'', ''Servicios'', ''Transporte'', ''viajes'', ''Otros'']"
    by code_simp
  have b: "delete_category (Some \<lparr>categories = [\<lparr>c_userId = ''u'', c_name = Some ''viajes'', c_createdAt = strptime_date 2024 2 7\<rparr>],
      transactions =
        [\<lparr>t_userId = ''u'', t_type = Some ''expense'', t_amount = Some 120, t_category = Some ''viajes'', t_description = ''tren'', t_date = Some (strptime_date 2024 2 3)\<rparr>,
         \<lparr>t_userId = ''u'', t_type = Some ''expense'', t_amount = Some 35, t_category = Some ''viajes'', t_description = ''taxi'', t_date = Some (strptime_date 2024 2 4)\<rparr>],
      settings = Map.empty\<rparr>) None ''u'' (Some ''viajes'')
     = ((Error_body, 404), Some \<lparr>categories = [\<lparr>c_userId = ''u'', c_name = Some ''viajes'', c_createdAt = strptime_date 2024 2 7\<rparr>],
      transactions =
        [\<lparr>t_userId = ''u'', t_type = Some ''expense'', t_amount = Some 120, t_category = Some ''viajes'', t_description = ''tren'', t_date = Some (strptime_date 2024 2 3)\<rparr>,
         \<lparr>t_userId = ''u'', t_type = Some ''expense'', t_amount = Some 35, t_category = Some ''viajes'', t_description = ''taxi'', t_date = Some (strptime_date 2024 2 4)\<rparr>],
      settings = Map.empty\<rparr>)"
    by (simp add: n delete_category_def get_default_def Let_def DEFAULT_CATEGORIES_def
          categories_where_user_name_def)
  have c: "counts_in (fst (fst (delete_category (Some \<lparr>categories = [\<lparr>c_userId = ''u'', c_name = Some ''Viajes'', c_createdAt = strptime_date 2024 2 7\<rparr>],
      transactions =
        [\<lparr>t_userId = ''u'', t_type = Some ''expense'', t_amount = Some 120, t_category = Some ''Viajes'', t_description = ''tren'', t_date = Some (strptime_date 2024 2 3)\<rparr>,
         \<lparr>t_userId = ''u'', t_type = Some ''expense'', t_amount = Some 35, t_category = Some ''Viajes'', t_description = ''taxi'', t_date = Some (strptime_date 2024 2 4)\<rparr>,
         \<lparr>t_userId = ''u'', t_type = Some ''expense'', t_amount = Some 60, t_category = Some ''Comida'', t_description = ''cena'', t_date = Some (strptime_date 2024 2 4)\<rparr>,
         \<lparr>t_userId = ''u'', t_type = Some ''expense'', t_amount = Some 300, t_category = Some ''Viajes'', t_description = ''hotel'', t_date = Some (strptime_date 2024 2 5)\<rparr>],
      settings = Map.empty\<rparr>) None ''u'' (Some ''Viajes'')))) = [3]"
    by (simp add: n delete_category_def get_default_def Let_def DEFAULT_CATEGORIES_def
          categories_where_user_name_def transactions_where_user_category_def queue_updates_def
          batch_update_def delete_at_def)
  show ?thesis using a b c by simp
qed

subsection \<open>C5\<close>

text \<open>
  Claim C5, as amended. When the transactions the report reads are all dated, in years
  from 1000 to 9999, \<^verbatim>\<open>monthly_report\<close> answers 200 with one entry for each category
  of those transactions, and for every entry the trend is the list of the sums of the
  category per calendar month, in ascending order of the months, each sum adding the
  amounts of the month in the order of the store; a zero is put in front when the category
  has exactly one month, so that the trend has at least two points and is
  \<open>[0, sum]\<close> for a single month; the total is \<^verbatim>\<open>sum(trend)\<close>.
\<close>

theorem C5_monthly_trend:
  assumes "user_id \<noteq> []"
    and "\<forall>t \<in> set (report_transactions st user_id). \<exists>d. t_date t = Some d \<and> four_digit_year d"
  shows "\<exists>entries. monthly_report fadd fsum (Some st) None (Some user_id) = (Monthly_body entries, 200)
    \<and> distinct (map category_name entries)
    \<and> set (map category_name entries) = category_of ` set (report_transactions st user_id)
    \<and> (\<forall>e \<in> set entries.
          monthly_trend e = trend_by_month fadd (report_transactions st user_id) (category_name e)
          \<and> total_amount e = fsum (monthly_trend e)
          \<and> 2 \<le> length (monthly_trend e)
          \<and> (\<forall>m. months_of (report_transactions st user_id) (category_name e) = [m]
                 \<longrightarrow> monthly_trend e
                      = [0, month_sum fadd (report_transactions st user_id) (category_name e) m]))"
proof -
  let ?docs = "report_transactions st user_id"
  have dated: "\<forall>t \<in> set (transactions_where_user st user_id). reported t \<longrightarrow> t_date t \<noteq> None"
  proof (intro ballI impI)
    fix t assume "t \<in> set (transactions_where_user st user_id)" "reported t"
    then have "t \<in> set (filter reported (transactions_where_user st user_id))" by simp
    then have "t \<in> set ?docs" by (simp only: reported_transactions)
    with assms(2) show "t_date t \<noteq> None" by auto
  qed
  from monthly_loop_invariant [OF dated, of fadd "[]" "[]"] obtain md' td' where
    loop: "monthly_loop fadd (transactions_where_user st user_id) [] [] = Inr (md', td')" and
    inv: "filled_from fadd ?docs [] md'"
    unfolding reported_transactions by blast
  let ?entries = "map (entry_of fsum td') md'"
  have resp: "monthly_report fadd fsum (Some st) None (Some user_id) = (Monthly_body ?entries, 200)"
    using assms(1) loop by (simp add: monthly_report_def)
  have names: "map category_name ?entries = map fst md'"
    by (simp add: entry_of_def Let_def comp_def)
  have d: "distinct (map category_name ?entries)"
    using filled_from_empty(1) [OF inv] unfolding names by (simp add: well_keyed_def)
  have cats: "set (map category_name ?entries) = category_of ` set ?docs"
    unfolding names using filled_from_empty(2) [OF inv] by (simp add: loop_category_eq)
  have each: "monthly_trend e = trend_by_month fadd ?docs (category_name e)
          \<and> total_amount e = fsum (monthly_trend e)
          \<and> 2 \<le> length (monthly_trend e)
          \<and> (\<forall>m. months_of ?docs (category_name e) = [m]
                 \<longrightarrow> monthly_trend e = [0, month_sum fadd ?docs (category_name e) m])"
    if e: "e \<in> set ?entries" for e
  proof -
    from e obtain c months where item: "(c, months) \<in> set md'" and ee: "e = entry_of fsum td' (c, months)"
      by auto
    have n: "category_name e = c" by (simp add: ee entry_of_def Let_def)
    have t: "monthly_trend e = trend_by_month fadd ?docs c"
      using trend_of_item [OF inv item assms(2)] by (simp add: ee entry_of_def Let_def)
    have tot: "total_amount e = fsum (monthly_trend e)"
      by (simp add: ee entry_of_def Let_def)
    have "c \<in> fst ` set md'" using item by force
    then have "c \<in> category_of ` set ?docs"
      using filled_from_empty(2) [OF inv] by (simp add: loop_category_eq)
    then have len: "2 \<le> length (monthly_trend e)" unfolding t by (rule trend_by_month_length)
    have single: "\<forall>m. months_of ?docs c = [m] \<longrightarrow> monthly_trend e = [0, month_sum fadd ?docs c m]"
      unfolding t by (simp add: trend_by_month_def)
    show ?thesis unfolding n using t tot len single by simp
  qed
  show ?thesis using resp d cats each by blast
qed

text \<open>
  The amended claim on a store with two categories: \<^verbatim>\<open>"Comida"\<close> has transactions in
  three months, stored out of order and across a change of year, and \<^verbatim>\<open>"Viajes"\<close> has
  60 and 40 in \<^verbatim>\<open>2024-03\<close> only, hence the trend \<open>[0, 100]\<close> and the total 100.
\<close>

theorem C5_monthly_trend_witness:
  "\<exists>entries. monthly_report (+) sum_list (Some \<lparr>categories = [],
      transactions =
        [\<lparr>t_userId = ''u'', t_type = Some ''expense'', t_amount = Some 50, t_category = Some ''comida'', t_description = ''mercado'', t_date = Some (strptime_date 2024 3 5)\<rparr>,
         \<lparr>t_userId = ''u'', t_type = Some ''expense'', t_amount = Some 60, t_category = Some ''Viajes'', t_description = ''tren'', t_date = Some (strptime_date 2024 3 7)\<rparr>,
         \<lparr>t_userId = ''u'', t_type = Some ''expense'', t_amount = Some 30, t_category = Some ''Comida'', t_description = ''cena'', t_date = Some (strptime_date 2023 12 24)\<rparr>,
         \<lparr>t_userId = ''v'', t_type = Some ''expense'', t_amount = Some 75, t_category = Some ''Comida'', t_description = ''cena'', t_date = Some (strptime_date 2024 2 2)\<rparr>,
         \<lparr>t_userId = ''u'', t_type = Some ''expense'', t_amount = Some 20, t_category = Some '' Comida'', t_description = ''pan'', t_date = Some (strptime_date 2024 2 9)\<rparr>,
         \<lparr>t_userId = ''u'', t_type = Some ''expense'', t_amount = Some 40, t_category = Some ''viajes '', t_description = ''taxi'', t_date = Some (strptime_date 2024 3 28)\<rparr>,
         \<lparr>t_userId = ''u'', t_type = Some ''expense'', t_amount = Some 5, t_category = Some ''COMIDA'', t_description = ''cafe'', t_date = Some (strptime_date 2023 12 30)\<rparr>],
      settings = Map.empty\<rparr>) None (Some ''u'') = (Monthly_body entries, 200)
     \<and> set (map category_name entries) = {''Comida'', ''Viajes''}
     \<and> (\<forall>e \<in> set entries.
           (category_name e = ''Comida'' \<longrightarrow> monthly_trend e = [35, 20, 50] \<and> total_amount e = 105)
         \<and> (category_name e = ''Viajes'' \<longrightarrow> monthly_trend e = [0, 100] \<and> total_amount e = 100))"
proof -
  let ?st = "\<lparr>categories = [],
      transactions =
        [\<lparr>t_userId = ''u'', t_type = Some ''expense'', t_amount = Some 50, t_category = Some ''comida'', t_description = ''mercado'', t_date = Some (strptime_date 2024 3 5)\<rparr>,
         \<lparr>t_userId = ''u'', t_type = Some ''expense'', t_amount = Some 60, t_category = Some ''Viajes'', t_description = ''tren'', t_date = Some (strptime_date 2024 3 7)\<rparr>,
         \<lparr>t_userId = ''u'', t_type = Some ''expense'', t_amount = Some 30, t_category = Some ''Comida'', t_description = ''cena'', t_date = Some (strptime_date 2023 12 24)\<rparr>,
         \<lparr>t_userId = ''v'', t_type = Some ''expense'', t_amount = Some 75, t_category = Some ''Comida'', t_description = ''cena'', t_date = Some (strptime_date 2024 2 2)\<rparr>,
         \<lparr>t_userId = ''u'', t_type = Some ''expense'', t_amount = Some 20, t_category = Some '' Comida'', t_description = ''pan'', t_date = Some (strptime_date 2024 2 9)\<rparr>,
         \<lparr>t_userId = ''u'', t_type = Some ''expense'', t_amount = Some 40, t_category = Some ''viajes '', t_description = ''taxi'', t_date = Some (strptime_date 2024 3 28)\<rparr>,
         \<lparr>t_userId = ''u'', t_type = Some ''expense'', t_amount = Some 5, t_category = Some ''COMIDA'', t_description = ''cafe'', t_date = Some (strptime_date 2023 12 30)\<rparr>],
      settings = Map.empty\<rparr>"
  let ?docs = "[\<lparr>t_userId = ''u'', t_type = Some ''expense'', t_amount = Some 50, t_category = Some ''comida'', t_description = ''mercado'', t_date = Some (strptime_date 2024 3 5)\<rparr>,
         \<lparr>t_userId = ''u'', t_type = Some ''expense'', t_amount = Some 60, t_category = Some ''Viajes'', t_description = ''tren'', t_date = Some (strptime_date 2024 3 7)\<rparr>,
         \<lparr>t_userId = ''u'', t_type = Some ''expense'', t_amount = Some 30, t_category = Some ''Comida'', t_description = ''cena'', t_date = Some (strptime_date 2023 12 24)\<rparr>,
         \<lparr>t_userId = ''u'', t_type = Some ''expense'', t_amount = Some 20, t_category = Some '' Comida'', t_description = ''pan'', t_date = Some (strptime_date 2024 2 9)\<rparr>,
         \<lparr>t_userId = ''u'', t_type = Some ''expense'', t_amount = Some 40, t_category = Some ''viajes '', t_description = ''taxi'', t_date = Some (strptime_date 2024 3 28)\<rparr>,
         \<lparr>t_userId = ''u'', t_type = Some ''expense'', t_amount = Some 5, t_category = Some ''COMIDA'', t_description = ''cafe'', t_date = Some (strptime_date 2023 12 30)\<rparr>]"
  have r: "report_transactions ?st ''u'' = ?docs"
    by (simp add: report_transactions_def)
  have c: "map category_of ?docs = [''Comida'', ''Viajes'', ''Comida'', ''Comida'', ''Viajes'', ''Comida'']"
    by code_simp
  have mc: "months_of ?docs ''Comida'' = [(2023, 12), (2024, 2), (2024, 3)]"
    and mv: "months_of ?docs ''Viajes'' = [(2024, 3)]"
    by code_simp+
  have sc: "map (month_sum (+) ?docs ''Comida'') [(2023, 12), (2024, 2), (2024, 3)] = [35, 20, 50]"
    using c by (simp add: month_sum_def summed_def month_of_def strptime_date_def amount_of_def)
  have sv: "map (month_sum (+) ?docs ''Viajes'') [(2024, 3)] = [100]"
    using c by (simp add: month_sum_def summed_def month_of_def strptime_date_def amount_of_def)
  have tc: "trend_by_month (+) ?docs ''Comida'' = [35, 20, 50]"
    unfolding trend_by_month_def mc sc by simp
  have tv: "trend_by_month (+) ?docs ''Viajes'' = [0, 100]"
    unfolding trend_by_month_def mv sv by simp
  have h1: "''u'' \<noteq> []" by simp
  have h2: "\<forall>t \<in> set (report_transactions ?st ''u''). \<exists>d. t_date t = Some d \<and> four_digit_year d"
    unfolding r by (simp add: four_digit_year_def strptime_date_def)
  from C5_monthly_trend [OF h1 h2, of "(+)" sum_list] obtain entries where
    all: "monthly_report (+) sum_list (Some ?st) None (Some ''u'') = (Monthly_body entries, 200)
    \<and> distinct (map category_name entries)
    \<and> set (map category_name entries) = category_of ` set (report_transactions ?st ''u'')
    \<and> (\<forall>e \<in> set entries.
          monthly_trend e = trend_by_month (+) (report_transactions ?st ''u'') (category_name e)
          \<and> total_amount e = sum_list (monthly_trend e)
          \<and> 2 \<le> length (monthly_trend e)
          \<and> (\<forall>m. months_of (report_transactions ?st ''u'') (category_name e) = [m]
                 \<longrightarrow> monthly_trend e
                      = [0, month_sum (+) (report_transactions ?st ''u'') (category_name e) m]))" ..
  note resp = all [THEN conjunct1]
  note cats = all [THEN conjunct2, THEN conjunct2, THEN conjunct1]
  note each = all [THEN conjunct2, THEN conjunct2, THEN conjunct2, rule_format]
  have "category_of ` set ?docs = set (map category_of ?docs)" by simp
  then have cats': "set (map category_name entries) = {''Comida'', ''Viajes''}"
    using cats unfolding r c by auto
  have "(category_name e = ''Comida'' \<longrightarrow> monthly_trend e = [35, 20, 50] \<and> total_amount e = 105)
         \<and> (category_name e = ''Viajes'' \<longrightarrow> monthly_trend e = [0, 100] \<and> total_amount e = 100)"
    if e: "e \<in> set entries" for e
  proof -
    have t: "monthly_trend e = trend_by_month (+) ?docs (category_name e)"
      using each [OF e, THEN conjunct1] unfolding r .
    have s: "total_amount e = sum_list (monthly_trend e)"
      using each [OF e, THEN conjunct2, THEN conjunct1] .
    show ?thesis unfolding s t using tc tv by simp
  qed
  then show ?thesis using resp cats' by blast
qed

text \<open>
  The claim as stated fails for a year below 1000: the key of December 999 is
  \<^verbatim>\<open>999-12\<close>, not of the form \<^verbatim>\<open>YYYY-MM\<close>, it sorts after \<^verbatim>\<open>2024-03\<close>, and the
  trend lists the sum of March 2024 before the sum of December 999.
\<close>

theorem C5_year_999_counterexample:
  "strftime_Y_m (strptime_date 999 12 24) = ''999-12''
   \<and> months_of [\<lparr>t_userId = ''u'', t_type = Some ''expense'', t_amount = Some 7, t_category = Some ''Viajes'', t_description = ''tren'', t_date = Some (strptime_date 2024 3 5)\<rparr>,
         \<lparr>t_userId = ''u'', t_type = Some ''expense'', t_amount = Some 5, t_category = Some ''Viajes'', t_description = ''barca'', t_date = Some (strptime_date 999 12 24)\<rparr>] ''Viajes'' = [(999, 12), (2024, 3)]
   \<and> monthly_report (+) sum_list (Some \<lparr>categories = [],
      transactions =
        [\<lparr>t_userId = ''u'', t_type = Some ''expense'', t_amount = Some 7, t_category = Some ''Viajes'', t_description = ''tren'', t_date = Some (strptime_date 2024 3 5)\<rparr>,
         \<lparr>t_userId = ''u'', t_type = Some ''expense'', t_amount = Some 5, t_category = Some ''Viajes'', t_description = ''barca'', t_date = Some (strptime_date 999 12 24)\<rparr>],
      settings = Map.empty\<rparr>) None (Some ''u'')
     = (Monthly_body [\<lparr>category_name = ''Viajes'', total_amount = 12, monthly_trend = [7, 5],
                       type_field = ''expense''\<rparr>], 200)"
proof -
  have k: "strftime_Y_m (strptime_date 999 12 24) = ''999-12''"
    "strftime_Y_m (strptime_date 2024 3 5) = ''2024-03''"
    by code_simp+
  have n: "normalize_name ''Viajes'' = ''Viajes''" by code_simp
  have m: "months_of [\<lparr>t_userId = ''u'', t_type = Some ''expense'', t_amount = Some 7, t_category = Some ''Viajes'', t_description = ''tren'', t_date = Some (strptime_date 2024 3 5)\<rparr>,
         \<lparr>t_userId = ''u'', t_type = Some ''expense'', t_amount = Some 5, t_category = Some ''Viajes'', t_description = ''barca'', t_date = Some (strptime_date 999 12 24)\<rparr>] ''Viajes'' = [(999, 12), (2024, 3)]"
    by code_simp
  have s: "sort [''2024-03'', ''999-12''] = [''2024-03'', ''999-12'']" by code_simp
  have t: "trend_of [(''2024-03'', 7), (''999-12'', 5)] = [7, 5]"
    unfolding trend_of_def by (simp add: s dict_get_def del: sort_key_simps)
  have "monthly_report (+) sum_list (Some \<lparr>categories = [],
      transactions =
        [\<lparr>t_userId = ''u'', t_type = Some ''expense'', t_amount = Some 7, t_category = Some ''Viajes'', t_description = ''tren'', t_date = Some (strptime_date 2024 3 5)\<rparr>,
         \<lparr>t_userId = ''u'', t_type = Some ''expense'', t_amount = Some 5, t_category = Some ''Viajes'', t_description = ''barca'', t_date = Some (strptime_date 999 12 24)\<rparr>],
      settings = Map.empty\<rparr>) None (Some ''u'')
     = (Monthly_body [\<lparr>category_name = ''Viajes'', total_amount = 12, monthly_trend = [7, 5],
                       type_field = ''expense''\<rparr>], 200)"
    by (simp add: monthly_report_def transactions_where_user_def Let_def get_default_def k n
          add_to_month_def dict_add_def dict_get_def entry_of_def t)
  then show ?thesis using k(1) m by simp
qed

subsection \<open>C6\<close>

text \<open>
  Claim C6, as amended. For a user whose expenses are each dated before the current month,
  or in it at or after its first midnight in the zone,
  \<^verbatim>\<open>get_most_problematic_category\<close> sums the amounts of the expenses of the current
  month per normalised category, in the order of the store, returns a category whose sum
  is the largest with that sum as the spend, and sets \<^verbatim>\<open>exceeds_goal\<close> to whether that
  one spend is above the monthly goal. With no expense in the current month it returns
  \<^verbatim>\<open>"Otros"\<close> with spend 0, and \<^verbatim>\<open>exceeds_goal\<close> is whether 0 is above the goal:
  false for every goal that is not negative.
\<close>

theorem C6_most_problematic:
  assumes "\<forall>t \<in> set (transactions st). t_userId t = user_id \<and> t_type t = Some ''expense'' \<longrightarrow>
             (\<forall>d. t_date t = Some d \<longrightarrow> clear_of_month_edges TZ now d)"
  shows
  "let docs = current_month_expenses st user_id now;
       goal = monthly_goal st user_id;
       r = get_most_problematic_category fadd TZ (Some st) None user_id now
   in pc_goal_amount r = goal \<and> pc_exceeds_goal r = (pc_current_spend r > goal) \<and>
      (if docs = []
       then pc_category r = Some ''Otros'' \<and> pc_current_spend r = 0 \<and> pc_exceeds_goal r = (0 > goal)
       else \<exists>c \<in> category_of ` set docs.
              pc_category r = Some c \<and> pc_current_spend r = spend_in fadd docs c \<and>
              (\<forall>c' \<in> category_of ` set docs. spend_in fadd docs c' \<le> spend_in fadd docs c))"
proof -
  let ?docs = "current_month_expenses st user_id now"
  let ?totals = "category_totals_of fadd ?docs"
  let ?key = "\<lambda>c. dict_get ?totals c 0"
  have q: "expenses_since st user_id (start_of_month TZ now) = ?docs"
    using assms by (rule expenses_since_current_month)
  have g: "(case settings st user_id of None \<Rightarrow> 500
            | Some goal_ref \<Rightarrow> get_default (monthlyGoal goal_ref) 500) = monthly_goal st user_id"
    by (simp add: monthly_goal_def get_default_def split: option.splits)
  show ?thesis
  proof (cases "map fst ?totals")
    case Nil
    then have "category_of ` set ?docs = {}"
      using category_totals_keys [of fadd ?docs] by simp
    then have "?docs = []" by simp
    then show ?thesis using Nil
      by (simp add: get_most_problematic_category_def Let_def q g)
  next
    case (Cons k ks)
    let ?m = "max_from ?key k ks"
    have keys: "insert k (set ks) = category_of ` set ?docs"
      using category_totals_keys [of fadd ?docs] Cons by simp
    then have ne: "?docs \<noteq> []" by auto
    have mem: "?m \<in> category_of ` set ?docs"
      using max_from_mem [of ?key k ks] keys by simp
    have great: "\<forall>c' \<in> category_of ` set ?docs. spend_in fadd ?docs c' \<le> spend_in fadd ?docs ?m"
    proof
      fix c' assume "c' \<in> category_of ` set ?docs"
      then have "c' = k \<or> c' \<in> set ks" using keys by auto
      then have "?key c' \<le> ?key ?m"
        using max_from_best [of ?key k ks] max_from_greatest [of c' ks ?key k] by auto
      then show "spend_in fadd ?docs c' \<le> spend_in fadd ?docs ?m"
        by (simp add: category_totals_get)
    qed
    have r: "get_most_problematic_category fadd TZ (Some st) None user_id now =
        \<lparr>pc_category = Some ?m, pc_current_spend = spend_in fadd ?docs ?m,
         pc_goal_amount = monthly_goal st user_id,
         pc_exceeds_goal = (spend_in fadd ?docs ?m > monthly_goal st user_id)\<rparr>"
      using Cons by (simp add: get_most_problematic_category_def Let_def q g category_totals_get)
    show ?thesis using ne mem great unfolding Let_def r by auto
  qed
qed

text \<open>
  The amended claim on the example of the specification: 600 in \<^verbatim>\<open>"Comida"\<close> and 400 in
  \<^verbatim>\<open>"Renta"\<close> in March 2024, with a goal of 500. One expense is dated at the very start
  of the month in the zone and one on its last day; an expense of February, an income and
  an expense of another user are in the store as well.
\<close>

theorem C6_most_problematic_witness:
  "pc_category (get_most_problematic_category (+) \<lparr>west_hour = 6, west_minute = 37, west_second = 0\<rparr> (Some \<lparr>categories = [],
      transactions =
        [\<lparr>t_userId = ''u'', t_type = Some ''expense'', t_amount = Some 350, t_category = Some ''comida'', t_description = ''mercado'', t_date = Some (strptime_date 2024 3 2)\<rparr>,
         \<lparr>t_userId = ''u'', t_type = Some ''expense'', t_amount = Some 400, t_category = Some ''Renta'', t_description = ''marzo'', t_date = Some (start_of_month \<lparr>west_hour = 6, west_minute = 37, west_second = 0\<rparr> (strptime_date 2024 3 20))\<rparr>,
         \<lparr>t_userId = ''v'', t_type = Some ''expense'', t_amount = Some 5000, t_category = Some ''Renta'', t_description = ''marzo'', t_date = Some (strptime_date 2024 3 9)\<rparr>,
         \<lparr>t_userId = ''u'', t_type = Some ''expense'', t_amount = Some 250, t_category = Some ''Comida '', t_description = ''cena'', t_date = Some (strptime_date 2024 3 31)\<rparr>,
         \<lparr>t_userId = ''u'', t_type = Some ''expense'', t_amount = Some 900, t_category = Some ''Renta'', t_description = ''febrero'', t_date = Some (strptime_date 2024 2 29)\<rparr>,
         \<lparr>t_userId = ''u'', t_type = Some ''income'', t_amount = Some 2000, t_category = Some ''Sueldo'', t_description = ''nomina'', t_date = Some (strptime_date 2024 3 10)\<rparr>],
      settings = [''u'' \<mapsto> \<lparr>monthlyGoal = Some 500\<rparr>]\<rparr>) None ''u'' (strptime_date 2024 3 20)) = Some ''Comida''
   \<and> pc_current_spend (get_most_problematic_category (+) \<lparr>west_hour = 6, west_minute = 37, west_second = 0\<rparr> (Some \<lparr>categories = [],
      transactions =
        [\<lparr>t_userId = ''u'', t_type = Some ''expense'', t_amount = Some 350, t_category = Some ''comida'', t_description = ''mercado'', t_date = Some (strptime_date 2024 3 2)\<rparr>,
         \<lparr>t_userId = ''u'', t_type = Some ''expense'', t_amount = Some 400, t_category = Some ''Renta'', t_description = ''marzo'', t_date = Some (start_of_month \<lparr>west_hour = 6, west_minute = 37, west_second = 0\<rparr> (strptime_date 2024 3 20))\<rparr>,
         \<lparr>t_userId = ''v'', t_type = Some ''expense'', t_amount = Some 5000, t_category = Some ''Renta'', t_description = ''marzo'', t_date = Some (strptime_date 2024 3 9)\<rparr>,
         \<lparr>t_userId = ''u'', t_type = Some ''expense'', t_amount = Some 250, t_category = Some ''Comida '', t_description = ''cena'', t_date = Some (strptime_date 2024 3 31)\<rparr>,
         \<lparr>t_userId = ''u'', t_type = Some ''expense'', t_amount = Some 900, t_category = Some ''Renta'', t_description = ''febrero'', t_date = Some (strptime_date 2024 2 29)\<rparr>,
         \<lparr>t_userId = ''u'', t_type = Some ''income'', t_amount = Some 2000, t_category = Some ''Sueldo'', t_description = ''nomina'', t_date = Some (strptime_date 2024 3 10)\<rparr>],
      settings = [''u'' \<mapsto> \<lparr>monthlyGoal = Some 500\<rparr>]\<rparr>) None ''u'' (strptime_date 2024 3 20)) = 600
   \<and> pc_goal_amount (get_most_problematic_category (+) \<lparr>west_hour = 6, west_minute = 37, west_second = 0\<rparr> (Some \<lparr>categories = [],
      transactions =
        [\<lparr>t_userId = ''u'', t_type = Some ''expense'', t_amount = Some 350, t_category = Some ''comida'', t_description = ''mercado'', t_date = Some (strptime_date 2024 3 2)\<rparr>,
         \<lparr>t_userId = ''u'', t_type = Some ''expense'', t_amount = Some 400, t_category = Some ''Renta'', t_description = ''marzo'', t_date = Some (start_of_month \<lparr>west_hour = 6, west_minute = 37, west_second = 0\<rparr> (strptime_date 2024 3 20))\<rparr>,
         \<lparr>t_userId = ''v'', t_type = Some ''expense'', t_amount = Some 5000, t_category = Some ''Renta'', t_description = ''marzo'', t_date = Some (strptime_date 2024 3 9)\<rparr>,
         \<lparr>t_userId = ''u'', t_type = Some ''expense'', t_amount = Some 250, t_category = Some ''Comida '', t_description = ''cena'', t_date = Some (strptime_date 2024 3 31)\<rparr>,
         \<lparr>t_userId = ''u'', t_type = Some ''expense'', t_amount = Some 900, t_category = Some ''Renta'', t_description = ''febrero'', t_date = Some (strptime_date 2024 2 29)\<rparr>,
         \<lparr>t_userId = ''u'', t_type = Some ''income'', t_amount = Some 2000, t_category = Some ''Sueldo'', t_description = ''nomina'', t_date = Some (strptime_date 2024 3 10)\<rparr>],
      settings = [''u'' \<mapsto> \<lparr>monthlyGoal = Some 500\<rparr>]\<rparr>) None ''u'' (strptime_date 2024 3 20)) = 500
   \<and> pc_exceeds_goal (get_most_problematic_category (+) \<lparr>west_hour = 6, west_minute = 37, west_second = 0\<rparr> (Some \<lparr>categories = [],
      transactions =
        [\<lparr>t_userId = ''u'', t_type = Some ''expense'', t_amount = Some 350, t_category = Some ''comida'', t_description = ''mercado'', t_date = Some (strptime_date 2024 3 2)\<rparr>,
         \<lparr>t_userId = ''u'', t_type = Some ''expense'', t_amount = Some 400, t_category = Some ''Renta'', t_description = ''marzo'', t_date = Some (start_of_month \<lparr>west_hour = 6, west_minute = 37, west_second = 0\<rparr> (strptime_date 2024 3 20))\<rparr>,
         \<lparr>t_userId = ''v'', t_type = Some ''expense'', t_amount = Some 5000, t_category = Some ''Renta'', t_description = ''marzo'', t_date = Some (strptime_date 2024 3 9)\<rparr>,
         \<lparr>t_userId = ''u'', t_type = Some ''expense'', t_amount = Some 250, t_category = Some ''Comida '', t_description = ''cena'', t_date = Some (strptime_date 2024 3 31)\<rparr>,
         \<lparr>t_userId = ''u'', t_type = Some ''expense'', t_amount = Some 900, t_category = Some ''Renta'', t_description = ''febrero'', t_date = Some (strptime_date 2024 2 29)\<rparr>,
         \<lparr>t_userId = ''u'', t_type = Some ''income'', t_amount = Some 2000, t_category = Some ''Sueldo'', t_description = ''nomina'', t_date = Some (strptime_date 2024 3 10)\<rparr>],
      settings = [''u'' \<mapsto> \<lparr>monthlyGoal = Some 500\<rparr>]\<rparr>) None ''u'' (strptime_date 2024 3 20))"
proof -
  let ?st = "\<lparr>categories = [],
      transactions =
        [\<lparr>t_userId = ''u'', t_type = Some ''expense'', t_amount = Some 350, t_category = Some ''comida'', t_description = ''mercado'', t_date = Some (strptime_date 2024 3 2)\<rparr>,
         \<lparr>t_userId = ''u'', t_type = Some ''expense'', t_amount = Some 400, t_category = Some ''Renta'', t_description = ''marzo'', t_date = Some (start_of_month \<lparr>west_hour = 6, west_minute = 37, west_second = 0\<rparr> (strptime_date 2024 3 20))\<rparr>,
         \<lparr>t_userId = ''v'', t_type = Some ''expense'', t_amount = Some 5000, t_category = Some ''Renta'', t_description = ''marzo'', t_date = Some (strptime_date 2024 3 9)\<rparr>,
         \<lparr>t_userId = ''u'', t_type = Some ''expense'', t_amount = Some 250, t_category = Some ''Comida '', t_description = ''cena'', t_date = Some (strptime_date 2024 3 31)\<rparr>,
         \<lparr>t_userId = ''u'', t_type = Some ''expense'', t_amount = Some 900, t_category = Some ''Renta'', t_description = ''febrero'', t_date = Some (strptime_date 2024 2 29)\<rparr>,
         \<lparr>t_userId = ''u'', t_type = Some ''income'', t_amount = Some 2000, t_category = Some ''Sueldo'', t_description = ''nomina'', t_date = Some (strptime_date 2024 3 10)\<rparr>],
      settings = [''u'' \<mapsto> \<lparr>monthlyGoal = Some 500\<rparr>]\<rparr>"
  let ?TZ = "\<lparr>west_hour = 6, west_minute = 37, west_second = 0\<rparr>"
  let ?now = "(strptime_date 2024 3 20)"
  let ?docs = "[\<lparr>t_userId = ''u'', t_type = Some ''expense'', t_amount = Some 350, t_category = Some ''comida'', t_description = ''mercado'', t_date = Some (strptime_date 2024 3 2)\<rparr>,
         \<lparr>t_userId = ''u'', t_type = Some ''expense'', t_amount = Some 400, t_category = Some ''Renta'', t_description = ''marzo'', t_date = Some (start_of_month \<lparr>west_hour = 6, west_minute = 37, west_second = 0\<rparr> (strptime_date 2024 3 20))\<rparr>,
         \<lparr>t_userId = ''u'', t_type = Some ''expense'', t_amount = Some 250, t_category = Some ''Comida '', t_description = ''cena'', t_date = Some (strptime_date 2024 3 31)\<rparr>]"
  let ?r = "get_most_problematic_category (+) ?TZ (Some ?st) None ''u'' ?now"
  have h: "\<forall>t \<in> set (transactions ?st). t_userId t = ''u'' \<and> t_type t = Some ''expense'' \<longrightarrow>
             (\<forall>d. t_date t = Some d \<longrightarrow> clear_of_month_edges ?TZ ?now d)"
    by (simp add: clear_of_month_edges_def strptime_date_def start_of_month_def)
  have docs: "current_month_expenses ?st ''u'' ?now = ?docs"
    by (simp add: current_month_expenses_def month_of_def strptime_date_def start_of_month_def)
  have c: "map category_of ?docs = [''Comida'', ''Renta'', ''Comida'']"
    by code_simp
  have cs: "category_of ` set ?docs = {''Comida'', ''Renta''}"
  proof -
    have "category_of ` set ?docs = set (map category_of ?docs)" by simp
    then show ?thesis unfolding c by auto
  qed
  have g: "monthly_goal ?st ''u'' = 500"
    by (simp add: monthly_goal_def)
  have s: "spend_in (+) ?docs ''Comida'' = 600" "spend_in (+) ?docs ''Renta'' = 400"
    using c by (simp_all add: spend_in_def summed_def amount_of_def)
  from C6_most_problematic [OF h, of "(+)"] have
    goal: "pc_goal_amount ?r = 500" and
    ex: "pc_exceeds_goal ?r = (pc_current_spend ?r > 500)" and
    pick: "\<exists>c \<in> category_of ` set ?docs.
              pc_category ?r = Some c \<and> pc_current_spend ?r = spend_in (+) ?docs c \<and>
              (\<forall>c' \<in> category_of ` set ?docs. spend_in (+) ?docs c' \<le> spend_in (+) ?docs c)"
    unfolding Let_def docs g by simp_all
  from pick have "pc_category ?r = Some ''Comida'' \<and> pc_current_spend ?r = 600"
    unfolding cs by (auto simp: s)
  then show ?thesis using goal ex by simp
qed

text \<open>
  The claim as stated fails for a negative goal: with no expense in the current month the
  category is \<^verbatim>\<open>"Otros"\<close> and the spend 0, and \<^verbatim>\<open>exceeds_goal\<close> is true.
\<close>

theorem C6_negative_goal_counterexample:
  "current_month_expenses \<lparr>categories = [],
      transactions =
        [\<lparr>t_userId = ''u'', t_type = Some ''expense'', t_amount = Some 900, t_category = Some ''Renta'', t_description = ''febrero'', t_date = Some (strptime_date 2024 2 29)\<rparr>],
      settings = [''u'' \<mapsto> \<lparr>monthlyGoal = Some (- 50)\<rparr>]\<rparr> ''u'' (strptime_date 2024 3 20) = []
   \<and> pc_category (get_most_problematic_category (+) \<lparr>west_hour = 6, west_minute = 37, west_second = 0\<rparr> (Some \<lparr>categories = [],
      transactions =
        [\<lparr>t_userId = ''u'', t_type = Some ''expense'', t_amount = Some 900, t_category = Some ''Renta'', t_description = ''febrero'', t_date = Some (strptime_date 2024 2 29)\<rparr>],
      settings = [''u'' \<mapsto> \<lparr>monthlyGoal = Some (- 50)\<rparr>]\<rparr>) None ''u'' (strptime_date 2024 3 20)) = Some ''Otros''
   \<and> pc_current_spend (get_most_problematic_category (+) \<lparr>west_hour = 6, west_minute = 37, west_second = 0\<rparr> (Some \<lparr>categories = [],
      transactions =
        [\<lparr>t_userId = ''u'', t_type = Some ''expense'', t_amount = Some 900, t_category = Some ''Renta'', t_description = ''febrero'', t_date = Some (strptime_date 2024 2 29)\<rparr>],
      settings = [''u'' \<mapsto> \<lparr>monthlyGoal = Some (- 50)\<rparr>]\<rparr>) None ''u'' (strptime_date 2024 3 20)) = 0
   \<and> pc_exceeds_goal (get_most_problematic_category (+) \<lparr>west_hour = 6, west_minute = 37, west_second = 0\<rparr> (Some \<lparr>categories = [],
      transactions =
        [\<lparr>t_userId = ''u'', t_type = Some ''expense'', t_amount = Some 900, t_category = Some ''Renta'', t_description = ''febrero'', t_date = Some (strptime_date 2024 2 29)\<rparr>],
      settings = [''u'' \<mapsto> \<lparr>monthlyGoal = Some (- 50)\<rparr>]\<rparr>) None ''u'' (strptime_date 2024 3 20)) = True"
  by (simp add: get_most_problematic_category_def expenses_since_def start_of_month_def
        datetime_le_def current_month_expenses_def month_of_def strptime_date_def
        get_default_def category_totals_of_def Let_def)

subsection \<open>C7\<close>

text \<open>
  Claim C7, as amended. With the store answering, \<^verbatim>\<open>create_category\<close> answers 400 when
  the normal form of the name is empty, answers 409 and leaves the store as it is when the
  normal form is in the listing of the user, and otherwise answers 201 and appends exactly
  one record with the user, the normal form and the current time. A raw name that differs
  only in case or surrounding whitespace from a listed name gets 409 when that listed
  name is itself in normal form.
\<close>

theorem C7_create_category:
  "\<exists>existing. get_user_categories (Some st) None user_id = Inr existing \<and>
     create_category (Some st) None user_id now (Some raw) =
       (if normalize_name raw = [] then ((Error_body, 400), Some st)
        else if normalize_name raw \<in> set existing then ((Error_body, 409), Some st)
        else ((Created_body (normalize_name raw), 201),
              Some (st\<lparr>categories := categories st @
                      [\<lparr>c_userId = user_id, c_name = Some (normalize_name raw), c_createdAt = now\<rparr>]\<rparr>))) \<and>
     (\<forall>e \<in> set existing. normalize_name e = e \<and> normalize_name raw = normalize_name e \<longrightarrow>
        create_category (Some st) None user_id now (Some raw) = ((Error_body, 409), Some st))"
proof -
  obtain existing where ex: "get_user_categories (Some st) None user_id = Inr existing"
    by (simp add: get_user_categories_def Let_def)
  have main: "create_category (Some st) None user_id now (Some raw) =
       (if normalize_name raw = [] then ((Error_body, 400), Some st)
        else if normalize_name raw \<in> set existing then ((Error_body, 409), Some st)
        else ((Created_body (normalize_name raw), 201),
              Some (st\<lparr>categories := categories st @
                      [\<lparr>c_userId = user_id, c_name = Some (normalize_name raw), c_createdAt = now\<rparr>]\<rparr>)))"
    using ex by (simp add: create_category_def get_default_def Let_def)
  have "[] \<notin> set existing" using ex by (rule empty_not_listed)
  then have "\<forall>e \<in> set existing. normalize_name e = e \<and> normalize_name raw = normalize_name e \<longrightarrow>
        create_category (Some st) None user_id now (Some raw) = ((Error_body, 409), Some st)"
    unfolding main by auto
  with ex main show ?thesis by blast
qed

text \<open>
  The amended claim at \<^verbatim>\<open>" viAJES "\<close>, which collides with the custom category stored
  as \<^verbatim>\<open>"Viajes"\<close>.
\<close>

theorem C7_create_category_witness:
  "create_category (Some \<lparr>categories = [\<lparr>c_userId = ''u'', c_name = Some ''Viajes'', c_createdAt = strptime_date 2024 2 7\<rparr>],
      transactions =
        [],
      settings = Map.empty\<rparr>) None ''u'' (strptime_date 2024 3 20) (Some '' viAJES '')
   = ((Error_body, 409), Some \<lparr>categories = [\<lparr>c_userId = ''u'', c_name = Some ''Viajes'', c_createdAt = strptime_date 2024 2 7\<rparr>],
      transactions =
        [],
      settings = Map.empty\<rparr>)"
proof -
  let ?st = "\<lparr>categories = [\<lparr>c_userId = ''u'', c_name = Some ''Viajes'', c_createdAt = strptime_date 2024 2 7\<rparr>],
      transactions =
        [],
      settings = Map.empty\<rparr>"
  from C7_create_category [of ?st "''u''" "strptime_date 2024 3 20" "'' viAJES ''"]
  obtain existing where
    ex: "get_user_categories (Some ?st) None ''u'' = Inr existing" and
    incl: "\<forall>e \<in> set existing. normalize_name e = e \<and> normalize_name '' viAJES '' = normalize_name e \<longrightarrow>
        create_category (Some ?st) None ''u'' (strptime_date 2024 3 20) (Some '' viAJES '')
          = ((Error_body, 409), Some ?st)"
    by blast
  have "get_user_categories (Some ?st) None ''u''
        = Inr [''Comida'', ''Entretenimiento'', ''Renta'', ''Servicios'', ''Transporte'', ''Viajes'', ''Otros'']"
    by code_simp
  with ex have mem: "''Viajes'' \<in> set existing" by auto
  have n: "normalize_name ''Viajes'' = ''Viajes''" "normalize_name '' viAJES '' = ''Viajes''"
    by code_simp+
  from incl mem n show ?thesis by auto
qed

text \<open>
  The claim as stated fails when the existing name is not stored in normal form: with
  \<^verbatim>\<open>"viajes"\<close> stored and listed, creating \<^verbatim>\<open>"Viajes"\<close>, which differs from it only in
  case, answers 201 and persists a second record.
\<close>

theorem C7_create_counterexample:
  "normalize_name ''Viajes'' = normalize_name ''viajes''
   \<and> get_user_categories (Some \<lparr>categories = [\<lparr>c_userId = ''u'', c_name = Some ''viajes'', c_createdAt = strptime_date 2024 2 7\<rparr>],
      transactions =
        [],
      settings = Map.empty\<rparr>) None ''u''
     = Inr [''Comida'', ''Entretenimiento'', ''Renta'', ''Servicios'', ''Transporte'', ''viajes'', ''Otros'']
   \<and> create_category (Some \<lparr>categories = [\<lparr>c_userId = ''u'', c_name = Some ''viajes'', c_createdAt = strptime_date 2024 2 7\<rparr>],
      transactions =
        [],
      settings = Map.empty\<rparr>) None ''u'' (strptime_date 2024 3 20) (Some ''Viajes'')
     = ((Created_body ''Viajes'', 201), Some \<lparr>categories = [\<lparr>c_userId = ''u'', c_name = Some ''viajes'', c_createdAt = strptime_date 2024 2 7\<rparr>,
         \<lparr>c_userId = ''u'', c_name = Some ''Viajes'', c_createdAt = strptime_date 2024 3 20\<rparr>],
      transactions =
        [],
      settings = Map.empty\<rparr>)"
proof -
  have n: "normalize_name ''Viajes'' = ''Viajes''" "normalize_name ''viajes'' = ''Viajes''"
    by code_simp+
  have l: "get_user_categories (Some \<lparr>categories = [\<lparr>c_userId = ''u'', c_name = Some ''viajes'', c_createdAt = strptime_date 2024 2 7\<rparr>],
      transactions =
        [],
      settings = Map.empty\<rparr>) None ''u''
     = Inr [''Comida'', ''Entretenimiento'', ''Renta'', ''Servicios'', ''Transporte'', ''viajes'', ''Otros'']"
    by code_simp
  show ?thesis
    by (simp add: n l create_category_def get_default_def Let_def)
qed

subsection \<open>C8\<close>

text \<open>
  Claim C8. When the normal form of the name is a default category, \<^verbatim>\<open>delete_category\<close>
  answers 403 and the store is unchanged: no record is deleted and no transaction is
  reassigned, whichever client call would have failed.
\<close>

theorem C8_delete_default_forbidden:
  "normalize_name raw \<in> set DEFAULT_CATEGORIES \<Longrightarrow>
   delete_category (Some st) fault user_id (Some raw) = ((Error_body, 403), Some st)"
  by (auto simp: delete_category_def get_default_def Let_def DEFAULT_CATEGORIES_def)

text \<open>The claim at \<^verbatim>\<open>"  comida "\<close>.\<close>

theorem C8_delete_default_forbidden_witness:
  "delete_category (Some \<lparr>categories =
              [\<lparr>c_userId = ''u'', c_name = Some ''Viajes'',
                c_createdAt = (strptime_date 2024 2 7)\<rparr>],
            transactions =
              [\<lparr>t_userId = ''u'', t_type = Some ''expense'', t_amount = Some 120,
                t_category = Some ''Viajes'', t_description = ''tren'',
                t_date = Some (strptime_date 2024 2 3)\<rparr>,
               \<lparr>t_userId = ''u'', t_type = Some ''expense'', t_amount = Some 35,
                t_category = Some ''Viajes'', t_description = ''taxi'',
                t_date = Some (strptime_date 2024 2 4)\<rparr>,
               \<lparr>t_userId = ''u'', t_type = Some ''expense'', t_amount = Some 60,
                t_category = Some ''Comida'', t_description = ''cena'',
                t_date = Some (strptime_date 2024 2 4)\<rparr>,
               \<lparr>t_userId = ''u'', t_type = Some ''expense'', t_amount = Some 300,
                t_category = Some ''Viajes'', t_description = ''hotel'',
                t_date = Some (strptime_date 2024 2 5)\<rparr>],
            settings = Map.empty\<rparr>) None ''u'' (Some ''  comida '')
     = ((Error_body, 403), Some \<lparr>categories =
              [\<lparr>c_userId = ''u'', c_name = Some ''Viajes'',
                c_createdAt = (strptime_date 2024 2 7)\<rparr>],
            transactions =
              [\<lparr>t_userId = ''u'', t_type = Some ''expense'', t_amount = Some 120,
                t_category = Some ''Viajes'', t_description = ''tren'',
                t_date = Some (strptime_date 2024 2 3)\<rparr>,
               \<lparr>t_userId = ''u'', t_type = Some ''expense'', t_amount = Some 35,
                t_category = Some ''Viajes'', t_description = ''taxi'',
                t_date = Some (strptime_date 2024 2 4)\<rparr>,
               \<lparr>t_userId = ''u'', t_type = Some ''expense'', t_amount = Some 60,
                t_category = Some ''Comida'', t_description = ''cena'',
                t_date = Some (strptime_date 2024 2 4)\<rparr>,
               \<lparr>t_userId = ''u'', t_type = Some ''expense'', t_amount = Some 300,
                t_category = Some ''Viajes'', t_description = ''hotel'',
                t_date = Some (strptime_date 2024 2 5)\<rparr>],
            settings = Map.empty\<rparr>)"
proof -
  have h: "normalize_name ''  comida '' \<in> set DEFAULT_CATEGORIES" by code_simp
  show ?thesis by (rule C8_delete_default_forbidden [OF h])
qed

subsection \<open>C9\<close>

text \<open>
  Claim C9. When a read of the store raises inside \<^verbatim>\<open>get_most_problematic_category\<close>,
  be it the read of the settings document or the transaction query, the function returns
  the record with category \<^verbatim>\<open>"Error"\<close>, spend 0, goal 0 and \<^verbatim>\<open>exceeds_goal\<close> false
  instead of raising.
\<close>

theorem C9_read_failure_gives_error_sentinel:
  "get_most_problematic_category fadd TZ (Some st) (Some 0) user_id now =
     \<lparr>pc_category = Some ''Error'', pc_current_spend = 0, pc_goal_amount = 0, pc_exceeds_goal = False\<rparr>
   \<and> get_most_problematic_category fadd TZ (Some st) (Some 1) user_id now =
     \<lparr>pc_category = Some ''Error'', pc_current_spend = 0, pc_goal_amount = 0, pc_exceeds_goal = False\<rparr>"
  by (simp add: get_most_problematic_category_def)

subsection \<open>C10\<close>

text \<open>
  Claim C10. For a name whose normal form is not empty and not a default category, when
  no record of the user has that name, \<^verbatim>\<open>delete_category\<close> answers 404 before the
  reassignment step: the store, and with it every transaction, is unchanged.
\<close>

theorem C10_delete_not_found:
  assumes "normalize_name raw \<noteq> []"
    and "normalize_name raw \<notin> set DEFAULT_CATEGORIES"
    and "\<forall>d \<in> set (categories st). \<not> names_category user_id (normalize_name raw) d"
  shows "delete_category (Some st) None user_id (Some raw) = ((Error_body, 404), Some st)"
proof -
  have "\<not> (\<exists>d \<in> set (categories st). names_category user_id (normalize_name raw) d)"
    using assms(3) by simp
  then have "categories_where_user_name st user_id (normalize_name raw) = []"
    by (rule categories_where_user_name_none)
  then show ?thesis using assms(1,2)
    by (simp add: delete_category_def get_default_def Let_def)
qed

text \<open>The claim at \<^verbatim>\<open>"mascotas"\<close>, for which the user has no record.\<close>

theorem C10_delete_not_found_witness:
  "delete_category (Some \<lparr>categories =
              [\<lparr>c_userId = ''u'', c_name = Some ''Viajes'',
                c_createdAt = (strptime_date 2024 2 7)\<rparr>],
            transactions =
              [\<lparr>t_userId = ''u'', t_type = Some ''expense'', t_amount = Some 120,
                t_category = Some ''Viajes'', t_description = ''tren'',
                t_date = Some (strptime_date 2024 2 3)\<rparr>,
               \<lparr>t_userId = ''u'', t_type = Some ''expense'', t_amount = Some 35,
                t_category = Some ''Viajes'', t_description = ''taxi'',
                t_date = Some (strptime_date 2024 2 4)\<rparr>,
               \<lparr>t_userId = ''u'', t_type = Some ''expense'', t_amount = Some 60,
                t_category = Some ''Comida'', t_description = ''cena'',
                t_date = Some (strptime_date 2024 2 4)\<rparr>,
               \<lparr>t_userId = ''u'', t_type = Some ''expense'', t_amount = Some 300,
                t_category = Some ''Viajes'', t_description = ''hotel'',
                t_date = Some (strptime_date 2024 2 5)\<rparr>],
            settings = Map.empty\<rparr>) None ''u'' (Some ''mascotas'')
     = ((Error_body, 404), Some \<lparr>categories =
              [\<lparr>c_userId = ''u'', c_name = Some ''Viajes'',
                c_createdAt = (strptime_date 2024 2 7)\<rparr>],
            transactions =
              [\<lparr>t_userId = ''u'', t_type = Some ''expense'', t_amount = Some 120,
                t_category = Some ''Viajes'', t_description = ''tren'',
                t_date = Some (strptime_date 2024 2 3)\<rparr>,
               \<lparr>t_userId = ''u'', t_type = Some ''expense'', t_amount = Some 35,
                t_category = Some ''Viajes'', t_description = ''taxi'',
                t_date = Some (strptime_date 2024 2 4)\<rparr>,
               \<lparr>t_userId = ''u'', t_type = Some ''expense'', t_amount = Some 60,
                t_category = Some ''Comida'', t_description = ''cena'',
                t_date = Some (strptime_date 2024 2 4)\<rparr>,
               \<lparr>t_userId = ''u'', t_type = Some ''expense'', t_amount = Some 300,
                t_category = Some ''Viajes'', t_description = ''hotel'',
                t_date = Some (strptime_date 2024 2 5)\<rparr>],
            settings = Map.empty\<rparr>)"
proof -
  let ?st = "\<lparr>categories =
              [\<lparr>c_userId = ''u'', c_name = Some ''Viajes'',
                c_createdAt = (strptime_date 2024 2 7)\<rparr>],
            transactions =
              [\<lparr>t_userId = ''u'', t_type = Some ''expense'', t_amount = Some 120,
                t_category = Some ''Viajes'', t_description = ''tren'',
                t_date = Some (strptime_date 2024 2 3)\<rparr>,
               \<lparr>t_userId = ''u'', t_type = Some ''expense'', t_amount = Some 35,
                t_category = Some ''Viajes'', t_description = ''taxi'',
                t_date = Some (strptime_date 2024 2 4)\<rparr>,
               \<lparr>t_userId = ''u'', t_type = Some ''expense'', t_amount = Some 60,
                t_category = Some ''Comida'', t_description = ''cena'',
                t_date = Some (strptime_date 2024 2 4)\<rparr>,
               \<lparr>t_userId = ''u'', t_type = Some ''expense'', t_amount = Some 300,
                t_category = Some ''Viajes'', t_description = ''hotel'',
                t_date = Some (strptime_date 2024 2 5)\<rparr>],
            settings = Map.empty\<rparr>"
  have n: "normalize_name ''mascotas'' = ''Mascotas''" by code_simp
  have h1: "normalize_name ''mascotas'' \<noteq> []" by (simp add: n)
  have h2: "normalize_name ''mascotas'' \<notin> set DEFAULT_CATEGORIES"
    by (simp add: n DEFAULT_CATEGORIES_def)
  have h3: "\<forall>d \<in> set (categories ?st). \<not> names_category ''u'' (normalize_name ''mascotas'') d"
    by (simp add: n names_category_def)
  show ?thesis by (rule C10_delete_not_found [OF h1 h2 h3])
qed

end
